theory Spec2Isabelle
  imports Complex_Main "HOL-Library.Word"
begin

section \<open>Data model\<close>

text \<open>
  The coordinator of \<^verbatim>\<open>App.py\<close> (class \<^verbatim>\<open>DomiSafeApp\<close>) is embedded as pure
  functions on an explicit state. Python values that cross the boundary to a
  collaborator, to the cloud or to a log file are JSON values. A Python \<^verbatim>\<open>dict\<close> is an
  association list in insertion order whose keys are pairwise distinct; lookups go through
  \<^const>\<open>map_of\<close>. A float is kept as its IEEE-754 binary64 bit pattern: the coordinator
  never computes with the values of a reading, it only tests their truth value.
\<close>

datatype pyval =
    PyNone
  | PyBool bool
  | PyInt int
  | PyFloat "64 word"
  | PyStr string
  | PyList "pyval list"
  | PyDict "(string \<times> pyval) list"

type_synonym pydict = "(string \<times> pyval) list"

text \<open>Python's truth value testing, as \<^verbatim>\<open>if x:\<close> and \<^verbatim>\<open>any(...)\<close> apply it.\<close>

fun truthy :: "pyval \<Rightarrow> bool" where
  "truthy PyNone = False"
| "truthy (PyBool b) = b"
| "truthy (PyInt i) = (i \<noteq> 0)"
| "truthy (PyFloat w) = (w \<noteq> 0 \<and> w \<noteq> 0x8000000000000000)"
| "truthy (PyStr s) = (s \<noteq> [])"
| "truthy (PyList xs) = (xs \<noteq> [])"
| "truthy (PyDict kvs) = (kvs \<noteq> [])"

text \<open>\<^verbatim>\<open>d.get(key, False)\<close>\<close>

definition get_or_False :: "pydict \<Rightarrow> string \<Rightarrow> pyval" where
  "get_or_False d key = (case map_of d key of Some v \<Rightarrow> v | None \<Rightarrow> PyBool False)"

subsection \<open>Strings\<close>

text \<open>
  The methods \<^verbatim>\<open>str.strip()\<close>, \<^verbatim>\<open>str.title()\<close> and \<^verbatim>\<open>str.upper()\<close> as Python defines them on
  ASCII text. \<^verbatim>\<open>strip\<close> removes the characters for which \<^verbatim>\<open>str.isspace\<close> holds (tab, line
  feed, vertical tab, form feed, carriage return, the four separators 0x1C to 0x1F and the
  space) from both ends. \<^verbatim>\<open>title\<close> walks the string once: a character that follows a cased
  character is lowercased, any other character is uppercased. Code points beyond ASCII are
  outside this model; \<open>ascii_only\<close> marks the strings it covers.
\<close>

definition ascii_lowercase :: string where
  "ascii_lowercase = ''abcdefghijklmnopqrstuvwxyz''"

definition ascii_uppercase :: string where
  "ascii_uppercase = ''ABCDEFGHIJKLMNOPQRSTUVWXYZ''"

definition to_upper :: "char \<Rightarrow> char" where
  "to_upper c = (case map_of (zip ascii_lowercase ascii_uppercase) c of Some u \<Rightarrow> u | None \<Rightarrow> c)"

definition to_lower :: "char \<Rightarrow> char" where
  "to_lower c = (case map_of (zip ascii_uppercase ascii_lowercase) c of Some l \<Rightarrow> l | None \<Rightarrow> c)"

definition is_cased :: "char \<Rightarrow> bool" where
  "is_cased c = (c \<in> set ascii_lowercase \<or> c \<in> set ascii_uppercase)"

definition whitespace :: string where
  "whitespace = [CHR 0x09, CHR 0x0A, CHR 0x0B, CHR 0x0C, CHR 0x0D,
                 CHR 0x1C, CHR 0x1D, CHR 0x1E, CHR 0x1F, CHR 0x20]"

definition is_space :: "char \<Rightarrow> bool" where
  "is_space c = (c \<in> set whitespace)"

definition strip :: "string \<Rightarrow> string" where
  "strip s = rev (dropWhile is_space (rev (dropWhile is_space s)))"

fun title_from :: "bool \<Rightarrow> string \<Rightarrow> string" where
  "title_from previous_is_cased [] = []"
| "title_from previous_is_cased (c # cs) =
     (if previous_is_cased then to_lower c else to_upper c) # title_from (is_cased c) cs"

definition title :: "string \<Rightarrow> string" where
  "title s = title_from False s"

definition upper :: "string \<Rightarrow> string" where
  "upper s = map to_upper s"

definition ascii_only :: "string \<Rightarrow> bool" where
  "ascii_only s = list_all (\<lambda>c. \<not> digit7 c) s"

text \<open>
  Equality up to ASCII case, character by character: what the specification calls
  ``case-insensitively equals''.
\<close>

definition caseless_eq :: "string \<Rightarrow> string \<Rightarrow> bool" where
  "caseless_eq a b = list_all2 (\<lambda>x y. to_lower x = to_lower y) a b"

subsection \<open>Feed keys\<close>

definition ENV_FEEDS :: "(string \<times> string) list" where
  "ENV_FEEDS = [(''temperature'', ''temperature-feed''),
                (''humidity'', ''humidity-feed''),
                (''pressure'', ''pressure-feed'')]"

definition SECURITY_FEEDS :: "(string \<times> string) list" where
  "SECURITY_FEEDS = [(''motion_count'', ''motion-feed''),
                     (''smoke_count'', ''smoke-feed''),
                     (''sound_count'', ''sound-feed'')]"

definition CONTROL_FEEDS :: "(string \<times> string) list" where
  "CONTROL_FEEDS = [(''light'', ''light-control''),
                    (''fan'', ''fan-control''),
                    (''buzzer'', ''buzzer-control''),
                    (''mode'', ''system-mode''),
                    (''camera'', ''camera-trigger'')]"

subsection \<open>Observable events and collaborators\<close>

text \<open>
  Every call that leaves the coordinator is recorded, in order, in a trace: the logger
  calls, the calls of the four collaborator modules (with what they returned) and the
  sleeps. The log messages are identified by a constructor and the values formatted into
  them.
\<close>

datatype level = Info | Warning | Error | Critical

datatype message =
    Config_not_found string
  | Mode_updated string
  | Invalid_mode string string
  | Remote_photo_triggered
  | Env_sent
  | Env_offline
  | Summary_sent int int int
  | Summary_failed
  | Logging_to_files

datatype event =
    Log level message
  | Publish string pyval bool
  | Sleep real
  | Get_environmental_data pydict
  | Get_security_data pydict
  | Strftime string
  | Trigger_manual_capture
  | Process_command string string
  | Fsync nat

text \<open>
  The modules \<^verbatim>\<open>MQTT_communicator\<close>, \<^verbatim>\<open>environmental_module\<close>, \<^verbatim>\<open>security_module\<close> and
  \<^verbatim>\<open>device_control_module\<close> and the wall clock are not part of \<^verbatim>\<open>App.py\<close>. They are
  parameters of the model: what a call returns may depend on everything that happened
  before it, that is on the trace so far. The collaborators are taken to return normally;
  \<^verbatim>\<open>send_to_adafruit_io\<close> returns the truth value that \<^verbatim>\<open>send_to_cloud\<close> tests, and readings
  are JSON dictionaries as \<^verbatim>\<open>json.dumps\<close> requires.
\<close>

record collaborators =
  send_to_adafruit_io :: "event list \<Rightarrow> string \<Rightarrow> pyval \<Rightarrow> bool"
  get_environmental_data :: "event list \<Rightarrow> pydict"
  get_security_data :: "event list \<Rightarrow> pydict"
  strftime :: "event list \<Rightarrow> string"

subsection \<open>State\<close>

text \<open>
  The dictionaries \<^verbatim>\<open>timers\<close> and \<^verbatim>\<open>security_counts\<close> are created by
  \<^verbatim>\<open>data_collection_loop\<close> with a fixed set of keys and handed by reference to the two
  collect methods; they are records. Times and intervals are seconds, taken as real
  numbers (the rounding of float subtraction is not modelled); counters are Python
  integers.
\<close>

record timers =
  env_check :: real
  security_check :: real
  security_send :: real

record counts =
  motion :: int
  smoke :: int
  sound :: int

datatype detector = Motion_key | Smoke_key | Sound_key

fun key_name :: "detector \<Rightarrow> string" where
  "key_name Motion_key = ''motion''"
| "key_name Smoke_key = ''smoke''"
| "key_name Sound_key = ''sound''"

text \<open>\<^verbatim>\<open>security_counts[key] += 1\<close>\<close>

fun increment :: "detector \<Rightarrow> counts \<Rightarrow> counts" where
  "increment Motion_key c = c\<lparr>motion := motion c + 1\<rparr>"
| "increment Smoke_key c = c\<lparr>smoke := smoke c + 1\<rparr>"
| "increment Sound_key c = c\<lparr>sound := sound c + 1\<rparr>"

text \<open>
  One record holds the attributes of the application object that the coordinator uses,
  the locals of \<^verbatim>\<open>data_collection_loop\<close>, the lines appended to the three log files
  (\<^verbatim>\<open>file1\<close>: environmental, \<^verbatim>\<open>file2\<close>: security, \<^verbatim>\<open>file3\<close>: device status; a line is the
  dictionary whose \<^verbatim>\<open>json.dumps\<close> text it is) and the trace.
\<close>

record state =
  running :: bool
  system_mode :: string
  security_check_interval :: real
  security_send_interval :: real
  env_interval :: real
  flushing_interval :: real
  timers :: timers
  security_counts :: counts
  last_fsync :: real
  file1 :: "pydict list"
  file2 :: "pydict list"
  file3 :: "pydict list"
  trace :: "event list"

definition emit :: "event list \<Rightarrow> state \<Rightarrow> state" where
  "emit evs s = s\<lparr>trace := trace s @ evs\<rparr>"

section \<open>Operations\<close>

subsection \<open>\<^verbatim>\<open>load_config\<close>\<close>

text \<open>
  What \<^verbatim>\<open>open(config_file, 'r')\<close> followed by \<^verbatim>\<open>json.load\<close> meets: no such file, a file that
  is not JSON, or a file holding a JSON value. Only \<^verbatim>\<open>FileNotFoundError\<close> is caught; the
  other exceptions leave \<^verbatim>\<open>load_config\<close>.
\<close>

datatype file_content = Not_found | Not_json | Json pyval

datatype exn = JSONDecodeError | TypeError

definition default_config :: pydict where
  "default_config = [(''security_check_interval'', PyInt 5),
                     (''security_send_interval'', PyInt 360),
                     (''env_interval'', PyInt 360),
                     (''flushing_interval'', PyInt 10),
                     (''cooldown_duration_sec'', PyInt 10)]"

text \<open>\<^verbatim>\<open>{**a, **b}\<close>: the keys of \<open>a\<close> in their order, with the values of \<open>b\<close> where it has
  the key, then the remaining keys of \<open>b\<close>.\<close>

definition dict_merge :: "pydict \<Rightarrow> pydict \<Rightarrow> pydict" where
  "dict_merge a b =
     map (\<lambda>(k, v). (k, case map_of b k of Some v' \<Rightarrow> v' | None \<Rightarrow> v)) a @
     filter (\<lambda>(k, v). map_of a k = None) b"

definition load_config ::
  "(string \<Rightarrow> file_content) \<Rightarrow> string \<Rightarrow> exn + (pydict \<times> event list)" where
  "load_config fs config_file =
     (case fs config_file of
        Json (PyDict config) \<Rightarrow> Inr (dict_merge default_config config, [])
      | Json _ \<Rightarrow> Inl TypeError
      | Not_json \<Rightarrow> Inl JSONDecodeError
      | Not_found \<Rightarrow> Inr (default_config, [Log Warning (Config_not_found config_file)]))"

subsection \<open>\<^verbatim>\<open>set_system_mode\<close>\<close>

definition set_system_mode :: "string \<Rightarrow> state \<Rightarrow> state" where
  "set_system_mode new_mode_raw s =
     (let new_mode = title (strip new_mode_raw) in
      if new_mode \<in> set [''Home'', ''Away'']
      then emit [Log Critical (Mode_updated new_mode)] (s\<lparr>system_mode := new_mode\<rparr>)
      else emit [Log Warning (Invalid_mode new_mode_raw (system_mode s))] s)"

subsection \<open>\<^verbatim>\<open>handle_incoming_mqtt_command\<close>\<close>

text \<open>The \<^verbatim>\<open>for\<close> loop over \<^verbatim>\<open>CONTROL_FEEDS.items()\<close>, left by \<^verbatim>\<open>break\<close> at the first match.\<close>

fun forward_to_device :: "(string \<times> string) list \<Rightarrow> string \<Rightarrow> string \<Rightarrow> event list" where
  "forward_to_device [] feed_name payload = []"
| "forward_to_device ((device_name, feed_key) # items) feed_name payload =
     (if feed_name = feed_key \<and> device_name \<notin> set [''mode'', ''camera'']
      then [Process_command device_name payload]
      else forward_to_device items feed_name payload)"

definition handle_incoming_mqtt_command ::
  "collaborators \<Rightarrow> string \<Rightarrow> string \<Rightarrow> state \<Rightarrow> state" where
  "handle_incoming_mqtt_command io feed_name payload s =
     (if feed_name = the (map_of CONTROL_FEEDS ''mode'') then set_system_mode payload s
      else if feed_name = the (map_of CONTROL_FEEDS ''camera'') \<and>
              upper payload \<in> set [''TAKE_PHOTO'', ''1'']
      then
        (let s1 = emit [Log Critical Remote_photo_triggered, Trigger_manual_capture] s;
             feed = the (map_of CONTROL_FEEDS ''camera'');
             sent = send_to_adafruit_io io (trace s1) feed (PyStr ''PHOTO_TAKEN'')
         in emit [Publish feed (PyStr ''PHOTO_TAKEN'') sent] s1)
      else emit (forward_to_device CONTROL_FEEDS feed_name payload) s)"

subsection \<open>\<^verbatim>\<open>send_to_cloud\<close>\<close>

text \<open>
  The loop over \<^verbatim>\<open>feeds.items()\<close>, with the flag \<^verbatim>\<open>success\<close> as an accumulator. A metric that
  \<^verbatim>\<open>data\<close> holds is sent, the flag is cleared when the send reports failure, and the loop
  sleeps half a second.
\<close>

fun send_loop ::
  "collaborators \<Rightarrow> pydict \<Rightarrow> (string \<times> string) list \<Rightarrow> bool \<Rightarrow> event list \<Rightarrow> bool \<times> event list"
where
  "send_loop io data [] success tr = (success, tr)"
| "send_loop io data ((sensor_name, feed_key) # items) success tr =
     (case map_of data sensor_name of
        None \<Rightarrow> send_loop io data items success tr
      | Some v \<Rightarrow>
          (let sent = send_to_adafruit_io io tr feed_key v
           in send_loop io data items (if \<not> sent then False else success)
                (tr @ [Publish feed_key v sent, Sleep (1 / 2)])))"

definition send_to_cloud ::
  "collaborators \<Rightarrow> pydict \<Rightarrow> (string \<times> string) list \<Rightarrow> event list \<Rightarrow> bool \<times> event list" where
  "send_to_cloud io data feeds tr = send_loop io data feeds True tr"

subsection \<open>\<^verbatim>\<open>collect_environmental_data\<close>\<close>

definition collect_environmental_data :: "collaborators \<Rightarrow> real \<Rightarrow> state \<Rightarrow> state" where
  "collect_environmental_data io current_time s =
     (if current_time - env_check (timers s) \<ge> env_interval s then
        (let env_data = get_environmental_data io (trace s);
             s1 = emit [Get_environmental_data env_data] s;
             s2 = s1\<lparr>file1 := file1 s1 @ [env_data]\<rparr>;
             (success, tr) = send_to_cloud io env_data ENV_FEEDS (trace s2);
             s3 = s2\<lparr>trace := tr @ [Log Info (if success then Env_sent else Env_offline)]\<rparr>
         in s3\<lparr>timers := (timers s3)\<lparr>env_check := current_time\<rparr>\<rparr>)
      else s)"

subsection \<open>\<^verbatim>\<open>collect_security_data\<close>\<close>

definition detected :: "pydict \<Rightarrow> detector \<Rightarrow> bool" where
  "detected sec_data key = truthy (get_or_False sec_data (key_name key @ ''_detected''))"

definition detector_keys :: "detector list" where
  "detector_keys = [Motion_key, Smoke_key, Sound_key]"

definition count_detections :: "pydict \<Rightarrow> counts \<Rightarrow> counts" where
  "count_detections sec_data c =
     fold (\<lambda>key c. if detected sec_data key then increment key c else c) detector_keys c"

definition any_detected :: "pydict \<Rightarrow> bool" where
  "any_detected sec_data = list_ex (detected sec_data) detector_keys"

text \<open>The body of the first \<^verbatim>\<open>if\<close>: one reading of the security module.\<close>

definition security_check_step :: "collaborators \<Rightarrow> real \<Rightarrow> state \<Rightarrow> state" where
  "security_check_step io current_time s =
     (let sec_data = get_security_data io (trace s);
          s1 = emit [Get_security_data sec_data] s;
          s2 = s1\<lparr>security_counts := count_detections sec_data (security_counts s1)\<rparr>;
          s3 = (if any_detected sec_data then s2\<lparr>file2 := file2 s2 @ [sec_data]\<rparr> else s2)
      in s3\<lparr>timers := (timers s3)\<lparr>security_check := current_time\<rparr>\<rparr>)"

definition security_summary :: "string \<Rightarrow> counts \<Rightarrow> pydict" where
  "security_summary stamp c =
     [(''timestamp'', PyStr stamp),
      (''motion_count'', PyInt (motion c)),
      (''smoke_count'', PyInt (smoke c)),
      (''sound_count'', PyInt (sound c))]"

text \<open>The body of the second \<^verbatim>\<open>if\<close>: the summary of the counters.\<close>

definition security_send_step :: "collaborators \<Rightarrow> real \<Rightarrow> state \<Rightarrow> state" where
  "security_send_step io current_time s =
     (let stamp = strftime io (trace s);
          s1 = emit [Strftime stamp] s;
          c = security_counts s1;
          (success, tr) = send_to_cloud io (security_summary stamp c) SECURITY_FEEDS (trace s1);
          s2 = s1\<lparr>trace := tr @ [if success
                                  then Log Info (Summary_sent (motion c) (smoke c) (sound c))
                                  else Log Warning Summary_failed]\<rparr>;
          s3 = s2\<lparr>security_counts := \<lparr>motion = 0, smoke = 0, sound = 0\<rparr>\<rparr>
      in s3\<lparr>timers := (timers s3)\<lparr>security_send := current_time\<rparr>\<rparr>)"

definition collect_security_data :: "collaborators \<Rightarrow> real \<Rightarrow> state \<Rightarrow> state" where
  "collect_security_data io current_time s =
     (let s1 = (if current_time - security_check (timers s) \<ge> security_check_interval s
                then security_check_step io current_time s else s)
      in if current_time - security_send (timers s1) \<ge> security_send_interval s1
         then security_send_step io current_time s1 else s1)"

subsection \<open>\<^verbatim>\<open>data_collection_loop\<close>\<close>

text \<open>The statements before the \<^verbatim>\<open>while\<close>: the files are opened for appending, the clock is
  read for \<^verbatim>\<open>last_fsync\<close>, the timers and the counters start at zero.\<close>

definition loop_start :: "real \<Rightarrow> state \<Rightarrow> state" where
  "loop_start now s =
     emit [Log Info Logging_to_files]
       (s\<lparr>file1 := [], file2 := [], file3 := [],
          last_fsync := now,
          timers := \<lparr>env_check = 0, security_check = 0, security_send = 0\<rparr>,
          security_counts := \<lparr>motion = 0, smoke = 0, sound = 0\<rparr>\<rparr>)"

text \<open>
  One pass through the body of the \<^verbatim>\<open>while\<close>, with \<open>current_time\<close> the value that
  \<^verbatim>\<open>time.time()\<close> returned. With collaborators that return normally nothing in the body
  raises, so the \<^verbatim>\<open>except\<close> branch of the loop is not entered.
\<close>

definition tick :: "collaborators \<Rightarrow> real \<Rightarrow> state \<Rightarrow> state" where
  "tick io current_time s =
     (let s1 = collect_environmental_data io current_time s;
          s2 = (if system_mode s1 \<noteq> ''Home''
                then collect_security_data io current_time s1 else s1);
          s3 = (if current_time - last_fsync s2 > flushing_interval s2
                then (emit [Fsync 1, Fsync 2, Fsync 3] s2)\<lparr>last_fsync := current_time\<rparr>
                else s2)
      in emit [Sleep (security_check_interval s3)] s3)"

text \<open>
  The parts of a pass that follow the environmental task, each as the source has it: the
  two \<^verbatim>\<open>if\<close> statements of \<^verbatim>\<open>collect_security_data\<close>, and the flush with the sleep that
  closes the pass.
\<close>

definition security_check_part :: "collaborators \<Rightarrow> real \<Rightarrow> state \<Rightarrow> state" where
  "security_check_part io current_time s =
     (if current_time - security_check (timers s) \<ge> security_check_interval s
      then security_check_step io current_time s else s)"

definition security_send_part :: "collaborators \<Rightarrow> real \<Rightarrow> state \<Rightarrow> state" where
  "security_send_part io current_time s =
     (if current_time - security_send (timers s) \<ge> security_send_interval s
      then security_send_step io current_time s else s)"

definition flush_and_sleep :: "real \<Rightarrow> state \<Rightarrow> state" where
  "flush_and_sleep current_time s =
     (let s3 = (if current_time - last_fsync s > flushing_interval s
                then (emit [Fsync 1, Fsync 2, Fsync 3] s)\<lparr>last_fsync := current_time\<rparr>
                else s)
      in emit [Sleep (security_check_interval s3)] s3)"

text \<open>
  Two more threads run beside the scheduler thread. The transport calls
  \<^verbatim>\<open>handle_incoming_mqtt_command\<close> for every inbound message (the handler is registered as
  its callback in \<^verbatim>\<open>setup_control_subscribers\<close>), and the main thread clears
  \<^verbatim>\<open>self.running\<close> at shutdown. Nothing locks \<^verbatim>\<open>self.system_mode\<close> or \<^verbatim>\<open>self.running\<close>, so
  either can happen at any moment, also in the middle of a pass.
\<close>

datatype arrival = Inbound string string | Halt

fun deliver :: "collaborators \<Rightarrow> arrival \<Rightarrow> state \<Rightarrow> state" where
  "deliver io (Inbound feed_name payload) s = handle_incoming_mqtt_command io feed_name payload s"
| "deliver io Halt s = s\<lparr>running := False\<rparr>"

definition arrivals :: "collaborators \<Rightarrow> arrival list \<Rightarrow> state \<Rightarrow> state" where
  "arrivals io as s = fold (deliver io) as s"

text \<open>
  A pass during which other threads act. The body of the loop reads \<^verbatim>\<open>self.system_mode\<close>
  once, in the test in front of \<^verbatim>\<open>collect_security_data\<close>, and \<^verbatim>\<open>self.running\<close> once, at the
  head of the loop; the timers, the counters and the files belong to the scheduler
  thread alone, and the handler writes nothing but the mode. So there are four places
  inside a pass where an arrival makes a difference: after the environmental task and
  before the mode is tested (\<open>before_gate\<close>), after the test and before the security check
  (\<open>after_gate\<close>), between the security check and the summary (\<open>after_check\<close>), and after the
  summary (\<open>after_send\<close>). The outcome of the test holds for the rest of the pass, whatever
  arrives later. With no arrivals the pass is \<open>tick\<close>.
\<close>

definition interleaved_tick ::
  "collaborators \<Rightarrow> real \<Rightarrow> arrival list \<Rightarrow> arrival list \<Rightarrow> arrival list \<Rightarrow> arrival list \<Rightarrow>
   state \<Rightarrow> state" where
  "interleaved_tick io current_time before_gate after_gate after_check after_send s =
     (let s1 = arrivals io before_gate (collect_environmental_data io current_time s);
          not_home = (system_mode s1 \<noteq> ''Home'');
          s2 = arrivals io after_gate s1;
          s3 = (if not_home then security_check_part io current_time s2 else s2);
          s4 = arrivals io after_check s3;
          s5 = (if not_home then security_send_part io current_time s4 else s4);
          s6 = arrivals io after_send s5
      in flush_and_sleep current_time s6)"

text \<open>
  A run of the process after \<open>loop_start\<close>, one input after the other: a pass of the
  scheduler thread during which nothing arrives (\<open>Tick\<close>), a pass with arrivals
  (\<open>Interleaved_tick\<close>), an inbound message between two passes and the shutdown between two
  passes. The scheduler thread enters a pass only while \<^verbatim>\<open>self.running\<close> holds; once it has
  left the loop, what arrives is still delivered. The loop may run for ever; a run here is
  a finite prefix.
\<close>

datatype input =
    Tick real
  | Message string string
  | Shutdown
  | Interleaved_tick real "arrival list" "arrival list" "arrival list" "arrival list"

fun step :: "collaborators \<Rightarrow> input \<Rightarrow> state \<Rightarrow> state" where
  "step io (Tick current_time) s = (if running s then tick io current_time s else s)"
| "step io (Message feed_name payload) s = handle_incoming_mqtt_command io feed_name payload s"
| "step io Shutdown s = s\<lparr>running := False\<rparr>"
| "step io (Interleaved_tick current_time before_gate after_gate after_check after_send) s =
     (if running s
      then interleaved_tick io current_time before_gate after_gate after_check after_send s
      else arrivals io (before_gate @ after_gate @ after_check @ after_send) s)"

definition run :: "collaborators \<Rightarrow> input list \<Rightarrow> state \<Rightarrow> state" where
  "run io ins s = fold (step io) ins s"

text \<open>
  The mode that the test in front of \<^verbatim>\<open>collect_security_data\<close> reads when the input is a
  pass that the scheduler thread enters; no value for the other inputs.
\<close>

fun mode_at_gate :: "collaborators \<Rightarrow> input \<Rightarrow> state \<Rightarrow> string option" where
  "mode_at_gate io (Tick current_time) s =
     (if running s then Some (system_mode (collect_environmental_data io current_time s))
      else None)"
| "mode_at_gate io (Interleaved_tick current_time before_gate after_gate after_check after_send) s =
     (if running s
      then Some (system_mode (arrivals io before_gate
                   (collect_environmental_data io current_time s)))
      else None)"
| "mode_at_gate io (Message feed_name payload) s = None"
| "mode_at_gate io Shutdown s = None"

section \<open>Observations on traces\<close>

text \<open>The send attempts of a trace, as (feed key, value, outcome), and their parts.\<close>

fun publishes :: "event list \<Rightarrow> (string \<times> pyval \<times> bool) list" where
  "publishes [] = []"
| "publishes (Publish feed v sent # evs) = (feed, v, sent) # publishes evs"
| "publishes (_ # evs) = publishes evs"

definition attempts :: "event list \<Rightarrow> (string \<times> pyval) list" where
  "attempts evs = map (\<lambda>(feed, v, sent). (feed, v)) (publishes evs)"

definition outcomes :: "event list \<Rightarrow> bool list" where
  "outcomes evs = map (\<lambda>(feed, v, sent). sent) (publishes evs)"

text \<open>The readings taken from the two sensor modules, in order.\<close>

fun security_samples :: "event list \<Rightarrow> pydict list" where
  "security_samples [] = []"
| "security_samples (Get_security_data d # evs) = d # security_samples evs"
| "security_samples (_ # evs) = security_samples evs"

fun environmental_samples :: "event list \<Rightarrow> pydict list" where
  "environmental_samples [] = []"
| "environmental_samples (Get_environmental_data d # evs) = d # environmental_samples evs"
| "environmental_samples (_ # evs) = environmental_samples evs"

fun captures :: "event list \<Rightarrow> nat" where
  "captures [] = 0"
| "captures (Trigger_manual_capture # evs) = Suc (captures evs)"
| "captures (_ # evs) = captures evs"

fun device_commands :: "event list \<Rightarrow> (string \<times> string) list" where
  "device_commands [] = []"
| "device_commands (Process_command device payload # evs) = (device, payload) # device_commands evs"
| "device_commands (_ # evs) = device_commands evs"

text \<open>What a step added to the trace.\<close>

definition added :: "state \<Rightarrow> state \<Rightarrow> event list" where
  "added s s' = drop (length (trace s)) (trace s')"

text \<open>
  The metrics ``present in both the values mapping and the feed mapping'', in the order of
  the feed mapping, each with its feed key and its value.
\<close>

definition common_metrics :: "pydict \<Rightarrow> (string \<times> string) list \<Rightarrow> (string \<times> pyval) list" where
  "common_metrics data feeds =
     map (\<lambda>(sensor_name, feed_key). (feed_key, the (map_of data sensor_name)))
       (filter (\<lambda>(sensor_name, feed_key). sensor_name \<in> fst ` set data) feeds)"

text \<open>The events of a \<open>send_to_cloud\<close> call: send attempts and pacing sleeps only.\<close>

fun is_send_event :: "event \<Rightarrow> bool" where
  "is_send_event (Publish feed v sent) = True"
| "is_send_event (Sleep d) = True"
| "is_send_event _ = False"

definition send_events :: "event list \<Rightarrow> bool" where
  "send_events evs = list_all is_send_event evs"

text \<open>What a \<open>send_to_cloud\<close> call added to the trace it was given.\<close>

definition sent_events ::
  "collaborators \<Rightarrow> pydict \<Rightarrow> (string \<times> string) list \<Rightarrow> event list \<Rightarrow> event list" where
  "sent_events io data feeds tr = drop (length tr) (snd (send_to_cloud io data feeds tr))"

text \<open>
  The log files follow the samples: from one state to a later one the trace grew, the
  environmental file grew by the environmental readings sampled in between, and the
  security file by those security readings sampled in between on which a detector fired.
\<close>

definition logs_follow :: "state \<Rightarrow> state \<Rightarrow> bool" where
  "logs_follow s s' \<longleftrightarrow>
     trace s' = trace s @ added s s' \<and>
     file1 s' = file1 s @ environmental_samples (added s s') \<and>
     file2 s' = file2 s @ filter any_detected (security_samples (added s s'))"

text \<open>
  From one state to a later one the security task did nothing: the trace grew, no
  security reading was sampled in between, and the detection counters are the same.
\<close>

definition security_idle :: "state \<Rightarrow> state \<Rightarrow> bool" where
  "security_idle s s' \<longleftrightarrow>
     trace s' = trace s @ added s s' \<and>
     security_samples (added s s') = [] \<and>
     security_counts s' = security_counts s"

section \<open>Concrete collaborators and states\<close>

text \<open>
  Sample behaviours of the collaborators, used to run the model: a transport on which
  every send fails, one on which every send succeeds, and one on which only the first
  send of the process fails.
\<close>

definition sample_env :: pydict where
  "sample_env = [(''timestamp'', PyStr ''2026-01-01T00:00:00''),
                 (''temperature'', PyInt 21),
                 (''humidity'', PyInt 40),
                 (''pressure'', PyInt 1013)]"

definition quiet_reading :: pydict where
  "quiet_reading = [(''timestamp'', PyStr ''2026-01-01T00:00:00''),
                    (''motion_detected'', PyBool False),
                    (''smoke_detected'', PyBool False),
                    (''sound_detected'', PyBool False)]"

definition motion_reading :: pydict where
  "motion_reading = [(''timestamp'', PyStr ''2026-01-01T00:00:00''),
                     (''motion_detected'', PyBool True),
                     (''smoke_detected'', PyBool False),
                     (''sound_detected'', PyBool False)]"

fun never :: "event list \<Rightarrow> string \<Rightarrow> pyval \<Rightarrow> bool" where
  "never tr feed v = False"

fun always :: "event list \<Rightarrow> string \<Rightarrow> pyval \<Rightarrow> bool" where
  "always tr feed v = True"

fun after_first :: "event list \<Rightarrow> string \<Rightarrow> pyval \<Rightarrow> bool" where
  "after_first tr feed v = (publishes tr \<noteq> [])"

fun returns :: "'a \<Rightarrow> event list \<Rightarrow> 'a" where
  "returns x tr = x"

definition offline :: collaborators where
  "offline = \<lparr>send_to_adafruit_io = never,
              get_environmental_data = returns sample_env,
              get_security_data = returns quiet_reading,
              strftime = returns ''2026-01-01T00:00:00''\<rparr>"

definition online :: collaborators where
  "online = \<lparr>send_to_adafruit_io = always,
             get_environmental_data = returns sample_env,
             get_security_data = returns motion_reading,
             strftime = returns ''2026-01-01T00:00:00''\<rparr>"

definition flaky :: collaborators where
  "flaky = \<lparr>send_to_adafruit_io = after_first,
            get_environmental_data = returns sample_env,
            get_security_data = returns quiet_reading,
            strftime = returns ''2026-01-01T00:00:00''\<rparr>"

text \<open>The application object as \<^verbatim>\<open>__init__\<close> leaves it when the configuration holds the
  default intervals: running, in mode Home.\<close>

definition initial_state :: state where
  "initial_state =
     \<lparr>running = True, system_mode = ''Home'',
      security_check_interval = 5, security_send_interval = 360,
      env_interval = 360, flushing_interval = 10,
      timers = \<lparr>env_check = 0, security_check = 0, security_send = 0\<rparr>,
      security_counts = \<lparr>motion = 0, smoke = 0, sound = 0\<rparr>,
      last_fsync = 0, file1 = [], file2 = [], file3 = [], trace = []\<rparr>"

text \<open>File systems for \<open>load_config\<close>: no file at all, and a file that is not JSON.\<close>

fun no_files :: "string \<Rightarrow> file_content" where
  "no_files path = Not_found"

fun garbled_files :: "string \<Rightarrow> file_content" where
  "garbled_files path = Not_json"

text \<open>
  A state in mode Away with detections counted, and two runs: one pass in mode Away at
  time 400, and a run that goes to Away, passes twice, returns to Home and passes again
  at time 800.
\<close>

definition quiet_away :: "input list" where
  "quiet_away = [Message ''system-mode'' ''away'', Tick 400]"

definition away_then_home :: "input list" where
  "away_then_home = [Message ''system-mode'' ''away'', Tick 400, Tick 405,
                     Message ''system-mode'' '' HOME '', Tick 800]"

text \<open>
  Two runs in which the mode goes back to Home during the pass at time 405: in the first
  the message arrives before the mode is tested, in the second just after.
\<close>

definition home_before_gate :: "input list" where
  "home_before_gate = [Message ''system-mode'' ''away'', Tick 400,
                       Interleaved_tick 405 [Inbound ''system-mode'' ''home''] [] [] []]"

definition home_after_gate :: "input list" where
  "home_after_gate = [Message ''system-mode'' ''away'', Tick 400,
                      Interleaved_tick 405 [] [Inbound ''system-mode'' ''home''] [] []]"

definition busy_state :: state where
  "busy_state = initial_state\<lparr>system_mode := ''Away'',
                               security_counts := \<lparr>motion = 2, smoke = 0, sound = 1\<rparr>\<rparr>"

section \<open>Lemmas on traces\<close>

lemma publishes_append: "publishes (xs @ ys) = publishes xs @ publishes ys"
  by (induction xs rule: publishes.induct) simp_all

lemma attempts_append: "attempts (xs @ ys) = attempts xs @ attempts ys"
  by (simp add: attempts_def publishes_append)

lemma outcomes_append: "outcomes (xs @ ys) = outcomes xs @ outcomes ys"
  by (simp add: outcomes_def publishes_append)

lemma security_samples_append:
  "security_samples (xs @ ys) = security_samples xs @ security_samples ys"
  by (induction xs rule: security_samples.induct) simp_all

lemma environmental_samples_append:
  "environmental_samples (xs @ ys) = environmental_samples xs @ environmental_samples ys"
  by (induction xs rule: environmental_samples.induct) simp_all

lemma captures_append: "captures (xs @ ys) = captures xs + captures ys"
  by (induction xs rule: captures.induct) simp_all

lemma device_commands_append:
  "device_commands (xs @ ys) = device_commands xs @ device_commands ys"
  by (induction xs rule: device_commands.induct) simp_all

lemma send_events_Nil: "send_events []"
  by (simp add: send_events_def)

lemma send_events_no_security_samples: "send_events evs \<Longrightarrow> security_samples evs = []"
  by (induction evs rule: security_samples.induct) (simp_all add: send_events_def)

lemma send_events_no_environmental_samples:
  "send_events evs \<Longrightarrow> environmental_samples evs = []"
  by (induction evs rule: environmental_samples.induct) (simp_all add: send_events_def)

lemma added_append: "trace s' = trace s @ evs \<Longrightarrow> added s s' = evs"
  by (simp add: added_def)

section \<open>Sending to the cloud\<close>

lemma common_metrics_Nil: "common_metrics data [] = []"
  by (simp add: common_metrics_def)

lemma common_metrics_absent:
  "map_of data sensor_name = None \<Longrightarrow>
   common_metrics data ((sensor_name, feed_key) # items) = common_metrics data items"
  by (simp add: common_metrics_def map_of_eq_None_iff)

lemma common_metrics_present:
  assumes "map_of data sensor_name = Some v"
  shows "common_metrics data ((sensor_name, feed_key) # items) =
         (feed_key, v) # common_metrics data items"
proof -
  from assms have "sensor_name \<in> fst ` set data"
    by (metis map_of_eq_None_iff option.distinct(1))
  with assms show ?thesis by (simp add: common_metrics_def)
qed

lemma send_loop_sound:
  "\<exists>evs. snd (send_loop io data feeds success tr) = tr @ evs \<and>
         send_events evs \<and>
         attempts evs = common_metrics data feeds \<and>
         fst (send_loop io data feeds success tr) =
           (success \<and> list_all (\<lambda>sent. sent) (outcomes evs))"
proof (induction feeds arbitrary: success tr)
  case Nil
  show ?case by (simp add: send_events_def attempts_def outcomes_def common_metrics_Nil)
next
  case (Cons item items)
  obtain sensor_name feed_key where item: "item = (sensor_name, feed_key)" by (cases item)
  show ?case
  proof (cases "map_of data sensor_name")
    case None
    with Cons.IH [of success tr] item show ?thesis
      by (simp add: common_metrics_absent)
  next
    case (Some v)
    define sent where "sent = send_to_adafruit_io io tr feed_key v"
    define tr1 where "tr1 = tr @ [Publish feed_key v sent, Sleep (1 / 2)]"
    define b where "b = (if \<not> sent then False else success)"
    have unfold: "send_loop io data (item # items) success tr = send_loop io data items b tr1"
      by (simp add: item Some sent_def tr1_def b_def Let_def)
    from Cons.IH [of b tr1] obtain evs where
      evs: "snd (send_loop io data items b tr1) = tr1 @ evs" "send_events evs"
        "attempts evs = common_metrics data items"
        "fst (send_loop io data items b tr1) = (b \<and> list_all (\<lambda>sent. sent) (outcomes evs))"
      by blast
    let ?evs = "[Publish feed_key v sent, Sleep (1 / 2)] @ evs"
    have "snd (send_loop io data (item # items) success tr) = tr @ ?evs"
      unfolding unfold evs(1) by (simp add: tr1_def)
    moreover have "send_events ?evs"
      using evs(2) by (simp add: send_events_def)
    moreover have "attempts ?evs = common_metrics data (item # items)"
      using evs(3) by (simp add: item common_metrics_present [OF Some] attempts_def)
    moreover have "fst (send_loop io data (item # items) success tr) =
        (success \<and> list_all (\<lambda>sent. sent) (outcomes ?evs))"
      unfolding unfold evs(4) by (auto simp add: b_def outcomes_def)
    ultimately show ?thesis by blast
  qed
qed

lemma send_to_cloud_sound:
  "\<exists>evs. send_to_cloud io data feeds tr = (list_all (\<lambda>sent. sent) (outcomes evs), tr @ evs) \<and>
         send_events evs \<and> attempts evs = common_metrics data feeds"
proof -
  from send_loop_sound [of io data feeds True tr] obtain evs where
    evs: "snd (send_loop io data feeds True tr) = tr @ evs" "send_events evs"
      "attempts evs = common_metrics data feeds"
      "fst (send_loop io data feeds True tr) = (True \<and> list_all (\<lambda>sent. sent) (outcomes evs))"
    by blast
  have "send_to_cloud io data feeds tr = (list_all (\<lambda>sent. sent) (outcomes evs), tr @ evs)"
    using evs(1, 4) by (simp add: send_to_cloud_def prod_eq_iff)
  with evs(2, 3) show ?thesis by blast
qed

lemma send_loop_disjoint:
  "fst ` set data \<inter> fst ` set feeds = {} \<Longrightarrow> send_loop io data feeds success tr = (success, tr)"
proof (induction feeds)
  case Nil
  show ?case by simp
next
  case (Cons item items)
  obtain sensor_name feed_key where item: "item = (sensor_name, feed_key)" by (cases item)
  from Cons.prems item have "sensor_name \<notin> fst ` set data" by auto
  then have absent: "map_of data sensor_name = None" by (simp add: map_of_eq_None_iff)
  from Cons.prems have "fst ` set data \<inter> fst ` set items = {}" by auto
  with Cons.IH absent item show ?case by simp
qed

text \<open>
  Claim C5. \<open>send_to_cloud\<close> extends the trace; the sends it attempts are those of the
  metrics present in both \<open>data\<close> and \<open>feeds\<close>, in the order of \<open>feeds\<close>, whatever the
  outcome of each send; and it returns true exactly when every attempted send succeeded.
\<close>

theorem send_to_cloud_best_effort:
  "take (length tr) (snd (send_to_cloud io data feeds tr)) = tr \<and>
   attempts (drop (length tr) (snd (send_to_cloud io data feeds tr))) = common_metrics data feeds \<and>
   fst (send_to_cloud io data feeds tr) =
     list_all (\<lambda>sent. sent) (outcomes (drop (length tr) (snd (send_to_cloud io data feeds tr))))"
proof -
  from send_to_cloud_sound [of io data feeds tr] obtain evs where
    "send_to_cloud io data feeds tr = (list_all (\<lambda>sent. sent) (outcomes evs), tr @ evs)"
    "attempts evs = common_metrics data feeds"
    by blast
  then show ?thesis by simp
qed

lemmas sample_defs = sample_env_def quiet_reading_def motion_reading_def offline_def online_def
  flaky_def ENV_FEEDS_def SECURITY_FEEDS_def

theorem send_to_cloud_best_effort_witness:
  "attempts (snd (send_to_cloud flaky sample_env ENV_FEEDS [])) =
     [(''temperature-feed'', PyInt 21), (''humidity-feed'', PyInt 40), (''pressure-feed'', PyInt 1013)] \<and>
   outcomes (snd (send_to_cloud flaky sample_env ENV_FEEDS [])) = [False, True, True] \<and>
   fst (send_to_cloud flaky sample_env ENV_FEEDS []) = False \<and>
   attempts (snd (send_to_cloud offline sample_env ENV_FEEDS [])) =
     [(''temperature-feed'', PyInt 21), (''humidity-feed'', PyInt 40), (''pressure-feed'', PyInt 1013)] \<and>
   outcomes (snd (send_to_cloud offline sample_env ENV_FEEDS [])) = [False, False, False] \<and>
   fst (send_to_cloud offline sample_env ENV_FEEDS []) = False \<and>
   fst (send_to_cloud online sample_env ENV_FEEDS []) = True"
  using send_to_cloud_best_effort [of "[]" flaky sample_env ENV_FEEDS]
    send_to_cloud_best_effort [of "[]" offline sample_env ENV_FEEDS]
    send_to_cloud_best_effort [of "[]" online sample_env ENV_FEEDS]
  by (simp add: send_to_cloud_def sample_defs attempts_def outcomes_def common_metrics_def)

text \<open>
  Claim C9. When no key of \<open>data\<close> is a key of \<open>feeds\<close>, \<open>send_to_cloud\<close> returns true and
  leaves the trace as it was: no send is attempted (and no pacing sleep is taken).
\<close>

theorem send_to_cloud_disjoint:
  "fst ` set data \<inter> fst ` set feeds = {} \<Longrightarrow> send_to_cloud io data feeds tr = (True, tr)"
  by (simp add: send_to_cloud_def send_loop_disjoint)

theorem send_to_cloud_disjoint_witness:
  "fst ` set sample_env \<inter> fst ` set SECURITY_FEEDS = {} \<and>
   send_to_cloud offline sample_env SECURITY_FEEDS [Sleep 5] = (True, [Sleep 5])"
proof -
  have disjoint: "fst ` set sample_env \<inter> fst ` set SECURITY_FEEDS = {}"
    by (simp add: sample_env_def SECURITY_FEEDS_def)
  from send_to_cloud_disjoint [OF disjoint] disjoint show ?thesis by simp
qed

section \<open>Lemmas on strings\<close>

lemmas char_table_defs = to_upper_def to_lower_def ascii_lowercase_def ascii_uppercase_def

lemma to_lower_to_upper: "to_lower (to_upper c) = to_lower c"
  by (simp add: char_table_defs)

lemma to_upper_to_lower: "to_upper (to_lower c) = to_upper c"
  by (simp add: char_table_defs)

lemma to_upper_eq_iff: "to_upper x = to_upper y \<longleftrightarrow> to_lower x = to_lower y"
  by (metis to_lower_to_upper to_upper_to_lower)

lemma upper_eq_iff: "upper a = upper b \<longleftrightarrow> caseless_eq a b"
  unfolding upper_def caseless_eq_def
  by (auto simp add: list_eq_iff_nth_eq list_all2_conv_all_nth to_upper_eq_iff)

lemma upper_TAKE_PHOTO: "upper p = ''TAKE_PHOTO'' \<longleftrightarrow> caseless_eq p ''TAKE_PHOTO''"
proof -
  have "upper ''TAKE_PHOTO'' = ''TAKE_PHOTO''" by (simp add: upper_def char_table_defs)
  with upper_eq_iff [of p "''TAKE_PHOTO''"] show ?thesis by simp
qed

lemma upper_1: "upper p = ''1'' \<longleftrightarrow> caseless_eq p ''1''"
proof -
  have "upper ''1'' = ''1''" by (simp add: upper_def char_table_defs)
  with upper_eq_iff [of p "''1''"] show ?thesis by simp
qed


text \<open>
  Which strings \<open>title\<close> maps to \<open>Home\<close> and to \<open>Away\<close>: exactly the four-letter words equal to
  them up to case. So the raw inputs that \<open>set_system_mode\<close> accepts are \<open>home\<close> and \<open>away\<close> in
  any case, with any whitespace around them.
\<close>

lemma to_upper_cases:
  "to_upper c = CHR ''H'' \<longleftrightarrow> c = CHR ''h'' \<or> c = CHR ''H''"
  "to_upper c = CHR ''A'' \<longleftrightarrow> c = CHR ''a'' \<or> c = CHR ''A''"
  by (simp_all add: char_table_defs)

lemma to_lower_cases:
  "to_lower c = CHR ''h'' \<longleftrightarrow> c = CHR ''h'' \<or> c = CHR ''H''"
  "to_lower c = CHR ''o'' \<longleftrightarrow> c = CHR ''o'' \<or> c = CHR ''O''"
  "to_lower c = CHR ''m'' \<longleftrightarrow> c = CHR ''m'' \<or> c = CHR ''M''"
  "to_lower c = CHR ''e'' \<longleftrightarrow> c = CHR ''e'' \<or> c = CHR ''E''"
  "to_lower c = CHR ''a'' \<longleftrightarrow> c = CHR ''a'' \<or> c = CHR ''A''"
  "to_lower c = CHR ''w'' \<longleftrightarrow> c = CHR ''w'' \<or> c = CHR ''W''"
  "to_lower c = CHR ''y'' \<longleftrightarrow> c = CHR ''y'' \<or> c = CHR ''Y''"
  by (simp_all add: char_table_defs)

lemma title_from_eq_Nil: "title_from p s = [] \<longleftrightarrow> s = []"
  by (cases s) simp_all

lemma title_from_eq_Cons:
  "title_from p s = x # xs \<longleftrightarrow>
   (\<exists>c cs. s = c # cs \<and> (if p then to_lower c else to_upper c) = x \<and>
            title_from (is_cased c) cs = xs)"
  by (cases s) auto

lemma cased_letters:
  "is_cased CHR ''h''" "is_cased CHR ''H''" "is_cased CHR ''o''" "is_cased CHR ''O''"
  "is_cased CHR ''m''" "is_cased CHR ''M''" "is_cased CHR ''a''" "is_cased CHR ''A''"
  "is_cased CHR ''w''" "is_cased CHR ''W''"
  by (simp_all add: is_cased_def ascii_lowercase_def ascii_uppercase_def)

lemma lower_letters:
  "to_lower CHR ''h'' = CHR ''h''" "to_lower CHR ''o'' = CHR ''o''"
  "to_lower CHR ''m'' = CHR ''m''" "to_lower CHR ''e'' = CHR ''e''"
  "to_lower CHR ''a'' = CHR ''a''" "to_lower CHR ''w'' = CHR ''w''"
  "to_lower CHR ''y'' = CHR ''y''"
  by (simp_all add: char_table_defs)

lemma length_title_from: "length (title_from p s) = length s"
  by (induction s arbitrary: p) simp_all

lemma four_chars:
  assumes "length s = 4"
  obtains a b c d where "s = [a, b, c, d]"
proof -
  from assms have "\<exists>a b c d. s = [a, b, c, d]"
    by (simp add: eval_nat_numeral length_Suc_conv) blast
  with that show thesis by blast
qed

lemma title_Home: "title s = ''Home'' \<longleftrightarrow> caseless_eq s ''home''"
proof (cases "length s = 4")
  case True
  then obtain a b c d where s: "s = [a, b, c, d]" by (rule four_chars)
  have 1: "title [a, b, c, d] = ''Home'' \<longleftrightarrow>
      (a = CHR ''h'' \<or> a = CHR ''H'') \<and>
      (if is_cased a then to_lower b else to_upper b) = CHR ''o'' \<and>
      (if is_cased b then to_lower c else to_upper c) = CHR ''m'' \<and>
      (if is_cased c then to_lower d else to_upper d) = CHR ''e''"
    by (simp add: title_def to_upper_cases)
  have 2: "caseless_eq [a, b, c, d] ''home'' \<longleftrightarrow>
      (a = CHR ''h'' \<or> a = CHR ''H'') \<and> (b = CHR ''o'' \<or> b = CHR ''O'') \<and>
      (c = CHR ''m'' \<or> c = CHR ''M'') \<and> (d = CHR ''e'' \<or> d = CHR ''E'')"
    by (simp add: caseless_eq_def lower_letters to_lower_cases)
  show ?thesis
    unfolding s 1 2
    by (auto simp add: cased_letters to_lower_cases)
next
  case False
  then have "title s \<noteq> ''Home''"
    using length_title_from [of False s] by (auto simp add: title_def)
  moreover from False have "\<not> caseless_eq s ''home''"
    by (auto simp add: caseless_eq_def dest: list_all2_lengthD)
  ultimately show ?thesis by simp
qed

lemma title_Away: "title s = ''Away'' \<longleftrightarrow> caseless_eq s ''away''"
proof (cases "length s = 4")
  case True
  then obtain a b c d where s: "s = [a, b, c, d]" by (rule four_chars)
  have 1: "title [a, b, c, d] = ''Away'' \<longleftrightarrow>
      (a = CHR ''a'' \<or> a = CHR ''A'') \<and>
      (if is_cased a then to_lower b else to_upper b) = CHR ''w'' \<and>
      (if is_cased b then to_lower c else to_upper c) = CHR ''a'' \<and>
      (if is_cased c then to_lower d else to_upper d) = CHR ''y''"
    by (simp add: title_def to_upper_cases)
  have 2: "caseless_eq [a, b, c, d] ''away'' \<longleftrightarrow>
      (a = CHR ''a'' \<or> a = CHR ''A'') \<and> (b = CHR ''w'' \<or> b = CHR ''W'') \<and>
      (c = CHR ''a'' \<or> c = CHR ''A'') \<and> (d = CHR ''y'' \<or> d = CHR ''Y'')"
    by (simp add: caseless_eq_def lower_letters to_lower_cases)
  show ?thesis
    unfolding s 1 2
    by (auto simp add: cased_letters to_lower_cases)
next
  case False
  then have "title s \<noteq> ''Away''"
    using length_title_from [of False s] by (auto simp add: title_def)
  moreover from False have "\<not> caseless_eq s ''away''"
    by (auto simp add: caseless_eq_def dest: list_all2_lengthD)
  ultimately show ?thesis by simp
qed

lemma normalised_mode:
  "title (strip raw) = ''Home'' \<or> title (strip raw) = ''Away'' \<longleftrightarrow>
   caseless_eq (strip raw) ''home'' \<or> caseless_eq (strip raw) ''away''"
  by (simp add: title_Home title_Away)

section \<open>The mode\<close>


text \<open>
  Claim C4. \<open>set_system_mode\<close> normalises the raw input with \<open>strip\<close> and \<open>title\<close>. When the
  result is \<open>Home\<close> or \<open>Away\<close> the held mode becomes that value (and the update is logged);
  for every other input the state is the one before the call but for one warning added to
  the trace: the held mode is unchanged and the rejection is reported. The function
  returns a state in both cases, it has no raising branch.
\<close>
theorem set_system_mode_validates:
  "ascii_only new_mode_raw \<Longrightarrow>
   set_system_mode new_mode_raw s =
     (if title (strip new_mode_raw) = ''Home'' \<or> title (strip new_mode_raw) = ''Away''
      then s\<lparr>system_mode := title (strip new_mode_raw),
              trace := trace s @ [Log Critical (Mode_updated (title (strip new_mode_raw)))]\<rparr>
      else s\<lparr>trace := trace s @ [Log Warning (Invalid_mode new_mode_raw (system_mode s))]\<rparr>)"
  by (simp add: set_system_mode_def emit_def Let_def)

lemmas string_defs = title_def strip_def is_space_def whitespace_def is_cased_def upper_def
  to_upper_def to_lower_def ascii_lowercase_def ascii_uppercase_def ascii_only_def

theorem set_system_mode_validates_witness:
  "ascii_only ''  aWAY '' \<and> ascii_only ''Vacation'' \<and>
   system_mode (set_system_mode ''  aWAY '' initial_state) = ''Away'' \<and>
   system_mode (set_system_mode ''Vacation'' (set_system_mode ''  aWAY '' initial_state)) = ''Away'' \<and>
   trace (set_system_mode ''Vacation'' initial_state) = [Log Warning (Invalid_mode ''Vacation'' ''Home'')]"
proof -
  have a: "ascii_only ''  aWAY ''" and b: "ascii_only ''Vacation''"
    by (simp_all add: ascii_only_def)
  have c: "title (strip ''  aWAY '') = ''Away''" and d: "title (strip ''Vacation'') = ''Vacation''"
    by (simp_all add: string_defs)
  show ?thesis
    using a b set_system_mode_validates [OF a, of initial_state]
      set_system_mode_validates [OF b, of initial_state]
      set_system_mode_validates [OF b, of "set_system_mode ''  aWAY '' initial_state"]
    by (simp add: c d initial_state_def)
qed

section \<open>Inbound commands\<close>

lemma camera_feed: "the (map_of CONTROL_FEEDS ''camera'') = ''camera-trigger''"
  by (simp add: CONTROL_FEEDS_def)

lemma mode_feed: "the (map_of CONTROL_FEEDS ''mode'') = ''system-mode''"
  by (simp add: CONTROL_FEEDS_def)

lemma no_device_on_camera_feed: "forward_to_device CONTROL_FEEDS ''camera-trigger'' payload = []"
  by (simp add: CONTROL_FEEDS_def)

text \<open>
  Claim C8. A message on the camera topic whose payload equals \<open>TAKE_PHOTO\<close> or \<open>1\<close> up to
  case adds exactly three events: the log line, one call of the manual trigger of the
  camera, and then the publication of \<open>PHOTO_TAKEN\<close> on the camera topic. Any other payload
  on the camera topic leaves the state, trace included, as it was: no trigger, no
  publication, nothing forwarded to a device.
\<close>
theorem camera_command:
  "ascii_only payload \<Longrightarrow>
   handle_incoming_mqtt_command io ''camera-trigger'' payload s =
     (if caseless_eq payload ''TAKE_PHOTO'' \<or> caseless_eq payload ''1''
      then s\<lparr>trace := trace s @
             [Log Critical Remote_photo_triggered,
              Trigger_manual_capture,
              Publish ''camera-trigger'' (PyStr ''PHOTO_TAKEN'')
                (send_to_adafruit_io io
                   (trace s @ [Log Critical Remote_photo_triggered, Trigger_manual_capture])
                   ''camera-trigger'' (PyStr ''PHOTO_TAKEN''))]\<rparr>
      else s)"
  by (simp add: handle_incoming_mqtt_command_def camera_feed mode_feed
      no_device_on_camera_feed emit_def Let_def upper_TAKE_PHOTO upper_1)

theorem camera_command_witness:
  "ascii_only ''take_photo'' \<and> ascii_only ''1'' \<and> ascii_only ''cheese'' \<and>
   trace (handle_incoming_mqtt_command online ''camera-trigger'' ''take_photo'' initial_state) =
     [Log Critical Remote_photo_triggered, Trigger_manual_capture,
      Publish ''camera-trigger'' (PyStr ''PHOTO_TAKEN'') True] \<and>
   captures (trace (handle_incoming_mqtt_command offline ''camera-trigger'' ''1'' initial_state)) = 1 \<and>
   publishes (trace (handle_incoming_mqtt_command offline ''camera-trigger'' ''1'' initial_state)) =
     [(''camera-trigger'', PyStr ''PHOTO_TAKEN'', False)] \<and>
   handle_incoming_mqtt_command online ''camera-trigger'' ''cheese'' initial_state = initial_state"
proof -
  have a: "ascii_only ''take_photo''" and b: "ascii_only ''1''" and c: "ascii_only ''cheese''"
    by (simp_all add: ascii_only_def)
  have d: "caseless_eq ''take_photo'' ''TAKE_PHOTO''" "caseless_eq ''1'' ''1''"
    "\<not> caseless_eq ''cheese'' ''TAKE_PHOTO''" "\<not> caseless_eq ''cheese'' ''1''"
    by (simp_all add: caseless_eq_def char_table_defs)
  show ?thesis
    using a b c camera_command [OF a, of online initial_state]
      camera_command [OF b, of offline initial_state]
      camera_command [OF c, of online initial_state]
    by (simp add: d initial_state_def online_def offline_def)
qed

section \<open>Configuration\<close>

text \<open>
  Claim C6, amended to the missing file. When the configuration file does not exist,
  \<open>load_config\<close> returns the built-in defaults (check interval 5, send interval 360,
  environmental interval 360, flushing interval 10) with one warning, and does not raise.
\<close>
theorem load_config_missing_file:
  "fs config_file = Not_found \<Longrightarrow>
   load_config fs config_file =
     Inr (default_config, [Log Warning (Config_not_found config_file)]) \<and>
   map_of default_config ''security_check_interval'' = Some (PyInt 5) \<and>
   map_of default_config ''security_send_interval'' = Some (PyInt 360) \<and>
   map_of default_config ''env_interval'' = Some (PyInt 360) \<and>
   map_of default_config ''flushing_interval'' = Some (PyInt 10)"
  by (simp add: load_config_def default_config_def)

theorem load_config_missing_file_witness:
  "no_files ''./config.json'' = Not_found \<and>
   load_config no_files ''./config.json'' =
     Inr (default_config, [Log Warning (Config_not_found ''./config.json'')])"
  using load_config_missing_file [of no_files "''./config.json''"] by simp

text \<open>
  Claim C6 as stated fails for a file that exists and is not JSON: the decoding error of
  \<^verbatim>\<open>json.load\<close> is not caught, so \<open>load_config\<close> raises instead of returning the defaults.
\<close>
theorem load_config_unparseable_raises:
  "load_config garbled_files ''./config.json'' = Inl JSONDecodeError \<and>
   load_config garbled_files ''./config.json'' \<noteq>
     Inr (default_config, [Log Warning (Config_not_found ''./config.json'')])"
  by (simp add: load_config_def)

section \<open>The collect steps\<close>

lemma send_to_cloud_eq:
  "send_to_cloud io data feeds tr =
     (list_all (\<lambda>sent. sent) (outcomes (sent_events io data feeds tr)),
      tr @ sent_events io data feeds tr)"
proof -
  from send_to_cloud_sound [of io data feeds tr] obtain evs where
    "send_to_cloud io data feeds tr = (list_all (\<lambda>sent. sent) (outcomes evs), tr @ evs)"
    by blast
  then show ?thesis by (simp add: sent_events_def)
qed

lemma sent_events_send: "send_events (sent_events io data feeds tr)"
proof -
  from send_to_cloud_sound [of io data feeds tr] obtain evs where
    "send_to_cloud io data feeds tr = (list_all (\<lambda>sent. sent) (outcomes evs), tr @ evs)"
    "send_events evs"
    by blast
  then show ?thesis by (simp add: sent_events_def)
qed

lemma sent_events_attempts:
  "attempts (sent_events io data feeds tr) = common_metrics data feeds"
proof -
  from send_to_cloud_sound [of io data feeds tr] obtain evs where
    "send_to_cloud io data feeds tr = (list_all (\<lambda>sent. sent) (outcomes evs), tr @ evs)"
    "attempts evs = common_metrics data feeds"
    by blast
  then show ?thesis by (simp add: sent_events_def)
qed

lemma sent_events_no_security_samples [simp]:
  "security_samples (sent_events io data feeds tr) = []"
  by (rule send_events_no_security_samples [OF sent_events_send])

lemma sent_events_no_environmental_samples [simp]:
  "environmental_samples (sent_events io data feeds tr) = []"
  by (rule send_events_no_environmental_samples [OF sent_events_send])

lemma collect_environmental_data_idle:
  "\<not> env_interval s \<le> current_time - env_check (timers s) \<Longrightarrow>
   collect_environmental_data io current_time s = s"
  by (simp add: collect_environmental_data_def)

lemma collect_environmental_data_due:
  "env_interval s \<le> current_time - env_check (timers s) \<Longrightarrow>
   collect_environmental_data io current_time s =
     s\<lparr>file1 := file1 s @ [get_environmental_data io (trace s)],
       trace := trace s @ Get_environmental_data (get_environmental_data io (trace s)) #
         sent_events io (get_environmental_data io (trace s)) ENV_FEEDS
           (trace s @ [Get_environmental_data (get_environmental_data io (trace s))]) @
         [Log Info (if list_all (\<lambda>sent. sent)
                        (outcomes (sent_events io (get_environmental_data io (trace s)) ENV_FEEDS
                           (trace s @ [Get_environmental_data (get_environmental_data io (trace s))])))
                    then Env_sent else Env_offline)],
       timers := (timers s)\<lparr>env_check := current_time\<rparr>\<rparr>"
  by (simp add: collect_environmental_data_def emit_def Let_def send_to_cloud_eq)

lemma collect_environmental_data_frame:
  "system_mode (collect_environmental_data io current_time s) = system_mode s"
  "running (collect_environmental_data io current_time s) = running s"
  "security_counts (collect_environmental_data io current_time s) = security_counts s"
  "security_check (timers (collect_environmental_data io current_time s)) = security_check (timers s)"
  "security_send (timers (collect_environmental_data io current_time s)) = security_send (timers s)"
  "security_check_interval (collect_environmental_data io current_time s) = security_check_interval s"
  "security_send_interval (collect_environmental_data io current_time s) = security_send_interval s"
  "env_interval (collect_environmental_data io current_time s) = env_interval s"
  "flushing_interval (collect_environmental_data io current_time s) = flushing_interval s"
  "last_fsync (collect_environmental_data io current_time s) = last_fsync s"
  "file2 (collect_environmental_data io current_time s) = file2 s"
  "file3 (collect_environmental_data io current_time s) = file3 s"
  by (cases "env_interval s \<le> current_time - env_check (timers s)";
      simp add: collect_environmental_data_due collect_environmental_data_idle)+

lemma collect_environmental_data_trace:
  "trace (collect_environmental_data io current_time s) =
     trace s @ added s (collect_environmental_data io current_time s)"
  by (cases "env_interval s \<le> current_time - env_check (timers s)")
     (simp_all add: collect_environmental_data_due collect_environmental_data_idle added_def)

lemma collect_environmental_data_samples:
  "environmental_samples (added s (collect_environmental_data io current_time s)) =
     (if env_interval s \<le> current_time - env_check (timers s)
      then [get_environmental_data io (trace s)] else [])"
  "security_samples (added s (collect_environmental_data io current_time s)) = []"
  "file1 (collect_environmental_data io current_time s) =
     file1 s @ environmental_samples (added s (collect_environmental_data io current_time s))"
  "env_check (timers (collect_environmental_data io current_time s)) =
     (if env_interval s \<le> current_time - env_check (timers s)
      then current_time else env_check (timers s))"
  by (cases "env_interval s \<le> current_time - env_check (timers s)";
      simp add: collect_environmental_data_due collect_environmental_data_idle added_def
        environmental_samples_append security_samples_append)+

lemma security_check_step_eq:
  "security_check_step io current_time s =
     s\<lparr>file2 := file2 s @ filter any_detected [get_security_data io (trace s)],
       trace := trace s @ [Get_security_data (get_security_data io (trace s))],
       security_counts := count_detections (get_security_data io (trace s)) (security_counts s),
       timers := (timers s)\<lparr>security_check := current_time\<rparr>\<rparr>"
  by (simp add: security_check_step_def emit_def Let_def)

lemma summary_metrics:
  "common_metrics (security_summary stamp c) SECURITY_FEEDS =
     [(''motion-feed'', PyInt (motion c)), (''smoke-feed'', PyInt (smoke c)),
      (''sound-feed'', PyInt (sound c))]"
  by (simp add: common_metrics_def security_summary_def SECURITY_FEEDS_def)

lemma security_send_step_eq:
  "security_send_step io current_time s =
     s\<lparr>trace := trace s @ Strftime (strftime io (trace s)) #
         sent_events io (security_summary (strftime io (trace s)) (security_counts s))
           SECURITY_FEEDS (trace s @ [Strftime (strftime io (trace s))]) @
         [if list_all (\<lambda>sent. sent)
               (outcomes (sent_events io (security_summary (strftime io (trace s)) (security_counts s))
                  SECURITY_FEEDS (trace s @ [Strftime (strftime io (trace s))])))
          then Log Info (Summary_sent (motion (security_counts s)) (smoke (security_counts s))
                 (sound (security_counts s)))
          else Log Warning Summary_failed],
       security_counts := \<lparr>motion = 0, smoke = 0, sound = 0\<rparr>,
       timers := (timers s)\<lparr>security_send := current_time\<rparr>\<rparr>"
  by (simp add: security_send_step_def emit_def Let_def send_to_cloud_eq)

lemma attempts_simps:
  "attempts [] = []"
  "attempts (Publish feed v sent # evs) = (feed, v) # attempts evs"
  "attempts (Log l m # evs) = attempts evs"
  "attempts (Sleep d # evs) = attempts evs"
  "attempts (Get_environmental_data r # evs) = attempts evs"
  "attempts (Get_security_data r # evs) = attempts evs"
  "attempts (Strftime stamp # evs) = attempts evs"
  "attempts (Trigger_manual_capture # evs) = attempts evs"
  "attempts (Process_command device payload # evs) = attempts evs"
  "attempts (Fsync n # evs) = attempts evs"
  by (simp_all add: attempts_def)

lemma collect_environmental_data_attempts:
  "attempts (added s (collect_environmental_data io current_time s)) =
     (if env_interval s \<le> current_time - env_check (timers s)
      then common_metrics (get_environmental_data io (trace s)) ENV_FEEDS else [])"
  by (cases "env_interval s \<le> current_time - env_check (timers s)")
     (simp_all add: collect_environmental_data_due collect_environmental_data_idle added_def
       attempts_append attempts_simps sent_events_attempts)

lemmas security_step_eqs = collect_security_data_def security_check_step_eq
  security_send_step_eq Let_def

lemma collect_security_data_frame:
  "system_mode (collect_security_data io current_time s) = system_mode s"
  "running (collect_security_data io current_time s) = running s"
  "env_check (timers (collect_security_data io current_time s)) = env_check (timers s)"
  "security_check_interval (collect_security_data io current_time s) = security_check_interval s"
  "security_send_interval (collect_security_data io current_time s) = security_send_interval s"
  "env_interval (collect_security_data io current_time s) = env_interval s"
  "flushing_interval (collect_security_data io current_time s) = flushing_interval s"
  "last_fsync (collect_security_data io current_time s) = last_fsync s"
  "file1 (collect_security_data io current_time s) = file1 s"
  "file3 (collect_security_data io current_time s) = file3 s"
  by (simp_all add: security_step_eqs)

lemma collect_security_data_trace:
  "trace (collect_security_data io current_time s) =
     trace s @ added s (collect_security_data io current_time s)"
  by (simp add: security_step_eqs added_def)

lemma collect_security_data_samples:
  "security_samples (added s (collect_security_data io current_time s)) =
     (if security_check_interval s \<le> current_time - security_check (timers s)
      then [get_security_data io (trace s)] else [])"
  "environmental_samples (added s (collect_security_data io current_time s)) = []"
  "file2 (collect_security_data io current_time s) =
     file2 s @ filter any_detected (security_samples (added s (collect_security_data io current_time s)))"
  "security_check (timers (collect_security_data io current_time s)) =
     (if security_check_interval s \<le> current_time - security_check (timers s)
      then current_time else security_check (timers s))"
  by (simp_all add: security_step_eqs added_def security_samples_append
      environmental_samples_append)

lemma collect_security_data_summary:
  assumes "security_send_interval s \<le> current_time - security_send (timers s)"
  shows "security_counts (collect_security_data io current_time s) =
           \<lparr>motion = 0, smoke = 0, sound = 0\<rparr>"
    and "security_send (timers (collect_security_data io current_time s)) = current_time"
    and "attempts (added s (collect_security_data io current_time s)) =
           common_metrics
             (security_summary stamp
               (fold count_detections
                 (security_samples (added s (collect_security_data io current_time s)))
                 (security_counts s)))
             SECURITY_FEEDS"
  using assms
  by (simp_all add: security_step_eqs added_def security_samples_append attempts_append
      attempts_simps sent_events_attempts summary_metrics)

lemma collect_security_data_stamp:
  assumes "security_send_interval s \<le> current_time - security_send (timers s)"
  shows "\<exists>stamp. Strftime stamp \<in> set (added s (collect_security_data io current_time s))"
proof (cases "security_check_interval s \<le> current_time - security_check (timers s)")
  case True
  with assms have "Strftime (strftime io (trace s @ [Get_security_data (get_security_data io (trace s))]))
      \<in> set (added s (collect_security_data io current_time s))"
    by (simp add: security_step_eqs added_def)
  then show ?thesis ..
next
  case False
  with assms have "Strftime (strftime io (trace s))
      \<in> set (added s (collect_security_data io current_time s))"
    by (simp add: security_step_eqs added_def)
  then show ?thesis ..
qed

lemma collect_security_data_no_summary:
  assumes "\<not> security_send_interval s \<le> current_time - security_send (timers s)"
  shows "security_counts (collect_security_data io current_time s) =
           fold count_detections
             (security_samples (added s (collect_security_data io current_time s)))
             (security_counts s)"
    and "security_send (timers (collect_security_data io current_time s)) =
           security_send (timers s)"
    and "attempts (added s (collect_security_data io current_time s)) = []"
  using assms
  by (simp_all add: security_step_eqs added_def attempts_simps)

section \<open>One pass of the loop\<close>

lemma tick_parts:
  assumes s1: "s1 = collect_environmental_data io current_time s"
    and s2: "s2 = (if system_mode s \<noteq> ''Home''
                   then collect_security_data io current_time s1 else s1)"
  shows "trace (tick io current_time s) =
           trace s @ added s s1 @ added s1 s2 @
             (if current_time - last_fsync s > flushing_interval s
              then [Fsync 1, Fsync 2, Fsync 3] else []) @
             [Sleep (security_check_interval s)]"
    and "file1 (tick io current_time s) = file1 s1"
    and "file2 (tick io current_time s) = file2 s2"
    and "security_counts (tick io current_time s) = security_counts s2"
    and "timers (tick io current_time s) = timers s2"
    and "system_mode (tick io current_time s) = system_mode s"
    and "running (tick io current_time s) = running s"
proof -
  have t1: "trace s1 = trace s @ added s s1"
    unfolding s1 by (rule collect_environmental_data_trace)
  have t2: "trace s2 = trace s1 @ added s1 s2"
    unfolding s2 using collect_security_data_trace [of io current_time s1]
    by (simp add: added_def)
  have m1: "system_mode s1 = system_mode s"
    unfolding s1 by (rule collect_environmental_data_frame)
  have tick: "tick io current_time s =
      (let s3 = (if current_time - last_fsync s2 > flushing_interval s2
                 then (emit [Fsync 1, Fsync 2, Fsync 3] s2)\<lparr>last_fsync := current_time\<rparr>
                 else s2)
       in emit [Sleep (security_check_interval s3)] s3)"
    by (simp add: tick_def Let_def s1 [symmetric] m1 s2 [symmetric])
  have f2: "last_fsync s2 = last_fsync s" "flushing_interval s2 = flushing_interval s"
    "security_check_interval s2 = security_check_interval s" "system_mode s2 = system_mode s"
    "running s2 = running s" "file1 s2 = file1 s1"
    unfolding s2 s1
    by (simp_all add: collect_security_data_frame collect_environmental_data_frame)
  show "trace (tick io current_time s) =
           trace s @ added s s1 @ added s1 s2 @
             (if current_time - last_fsync s > flushing_interval s
              then [Fsync 1, Fsync 2, Fsync 3] else []) @
             [Sleep (security_check_interval s)]"
    by (simp add: tick Let_def emit_def f2 t2 t1)
  show "file1 (tick io current_time s) = file1 s1"
    by (simp add: tick Let_def emit_def f2)
  show "file2 (tick io current_time s) = file2 s2"
    by (simp add: tick Let_def emit_def f2)
  show "security_counts (tick io current_time s) = security_counts s2"
    by (simp add: tick Let_def emit_def f2)
  show "timers (tick io current_time s) = timers s2"
    by (simp add: tick Let_def emit_def f2)
  show "system_mode (tick io current_time s) = system_mode s"
    by (simp add: tick Let_def emit_def f2)
  show "running (tick io current_time s) = running s"
    by (simp add: tick Let_def emit_def f2)
qed

lemma added_self: "added s s = []"
  by (simp add: added_def)

lemma added_trace: "trace s' = trace s @ evs \<Longrightarrow> added s s' = evs"
  by (simp add: added_def)

lemma tick_home:
  assumes "system_mode s = ''Home''"
  shows "security_samples (added s (tick io current_time s)) = []"
    and "security_counts (tick io current_time s) = security_counts s"
    and "security_check (timers (tick io current_time s)) = security_check (timers s)"
    and "security_send (timers (tick io current_time s)) = security_send (timers s)"
    and "file2 (tick io current_time s) = file2 s"
proof -
  define s1 where "s1 = collect_environmental_data io current_time s"
  have s2: "s1 = (if system_mode s \<noteq> ''Home''
                  then collect_security_data io current_time s1 else s1)"
    using assms by simp
  note parts = tick_parts [OF s1_def s2]
  show "security_samples (added s (tick io current_time s)) = []"
    by (simp add: added_trace [OF parts(1)] security_samples_append added_self s1_def
        collect_environmental_data_samples)
  show "security_counts (tick io current_time s) = security_counts s"
    by (simp add: parts(4) s1_def collect_environmental_data_frame)
  show "security_check (timers (tick io current_time s)) = security_check (timers s)"
    by (simp add: parts(5) s1_def collect_environmental_data_frame)
  show "security_send (timers (tick io current_time s)) = security_send (timers s)"
    by (simp add: parts(5) s1_def collect_environmental_data_frame)
  show "file2 (tick io current_time s) = file2 s"
    by (simp add: parts(3) s1_def collect_environmental_data_frame)
qed

lemma tick_home_attempts:
  assumes "system_mode s = ''Home''"
  shows "attempts (added s (tick io current_time s)) =
           (if env_interval s \<le> current_time - env_check (timers s)
            then common_metrics (get_environmental_data io (trace s)) ENV_FEEDS else [])"
proof -
  define s1 where "s1 = collect_environmental_data io current_time s"
  have s2: "s1 = (if system_mode s \<noteq> ''Home''
                  then collect_security_data io current_time s1 else s1)"
    using assms by simp
  note parts = tick_parts [OF s1_def s2]
  have "attempts (added s (tick io current_time s)) = attempts (added s s1)"
    by (simp add: added_trace [OF parts(1)] attempts_append attempts_simps added_self)
  then show ?thesis
    by (simp add: s1_def collect_environmental_data_attempts)
qed

lemma tick_away:
  assumes mode: "system_mode s \<noteq> ''Home''"
  shows "security_samples (added s (tick io current_time s)) =
           security_samples (added (collect_environmental_data io current_time s)
             (collect_security_data io current_time
               (collect_environmental_data io current_time s)))"
    and "attempts (added s (tick io current_time s)) =
           attempts (added s (collect_environmental_data io current_time s)) @
           attempts (added (collect_environmental_data io current_time s)
             (collect_security_data io current_time
               (collect_environmental_data io current_time s)))"
    and "security_counts (tick io current_time s) =
           security_counts (collect_security_data io current_time
             (collect_environmental_data io current_time s))"
    and "timers (tick io current_time s) =
           timers (collect_security_data io current_time
             (collect_environmental_data io current_time s))"
    and "set (added (collect_environmental_data io current_time s)
             (collect_security_data io current_time
               (collect_environmental_data io current_time s)))
         \<subseteq> set (added s (tick io current_time s))"
proof -
  define s1 where "s1 = collect_environmental_data io current_time s"
  define s2 where "s2 = collect_security_data io current_time s1"
  have s2': "s2 = (if system_mode s \<noteq> ''Home''
                   then collect_security_data io current_time s1 else s1)"
    using mode by (simp add: s2_def)
  note parts = tick_parts [OF s1_def s2']
  have env: "security_samples (added s s1) = []"
    unfolding s1_def by (rule collect_environmental_data_samples)
  show "security_samples (added s (tick io current_time s)) =
           security_samples (added (collect_environmental_data io current_time s)
             (collect_security_data io current_time
               (collect_environmental_data io current_time s)))"
    by (simp add: added_trace [OF parts(1)] security_samples_append env
        s2_def [symmetric] s1_def [symmetric])
  show "attempts (added s (tick io current_time s)) =
           attempts (added s (collect_environmental_data io current_time s)) @
           attempts (added (collect_environmental_data io current_time s)
             (collect_security_data io current_time
               (collect_environmental_data io current_time s)))"
    by (simp add: added_trace [OF parts(1)] attempts_append attempts_simps
        s2_def [symmetric] s1_def [symmetric])
  show "security_counts (tick io current_time s) =
           security_counts (collect_security_data io current_time
             (collect_environmental_data io current_time s))"
    by (simp add: parts(4) s2_def s1_def)
  show "timers (tick io current_time s) =
           timers (collect_security_data io current_time
             (collect_environmental_data io current_time s))"
    by (simp add: parts(5) s2_def s1_def)
  show "set (added (collect_environmental_data io current_time s)
             (collect_security_data io current_time
               (collect_environmental_data io current_time s)))
         \<subseteq> set (added s (tick io current_time s))"
    by (auto simp add: added_trace [OF parts(1)] s2_def [symmetric] s1_def [symmetric])
qed

text \<open>
  Claim C7. Whenever the summary step of \<open>collect_security_data\<close> runs, that is whenever its
  timer is due, the three counters are zero afterwards, for every behaviour of the
  transport: whether the sends of the summary succeeded or failed.
\<close>
theorem counters_zero_after_summary:
  "security_send_interval s \<le> current_time - security_send (timers s) \<Longrightarrow>
   security_counts (collect_security_data io current_time s) =
     \<lparr>motion = 0, smoke = 0, sound = 0\<rparr>"
  by (rule collect_security_data_summary)

lemma tick_summary:
  assumes "system_mode s \<noteq> ''Home''"
    and "security_send_interval s \<le> current_time - security_send (timers s)"
  shows "security_counts (tick io current_time s) = \<lparr>motion = 0, smoke = 0, sound = 0\<rparr> \<and>
         security_send (timers (tick io current_time s)) = current_time \<and>
         (\<exists>stamp. Strftime stamp \<in> set (added s (tick io current_time s))) \<and>
         (\<exists>earlier. attempts (added s (tick io current_time s)) = earlier @
            [(''motion-feed'', PyInt (motion (fold count_detections
                (security_samples (added s (tick io current_time s))) (security_counts s)))),
             (''smoke-feed'', PyInt (smoke (fold count_detections
                (security_samples (added s (tick io current_time s))) (security_counts s)))),
             (''sound-feed'', PyInt (sound (fold count_detections
                (security_samples (added s (tick io current_time s))) (security_counts s))))])"
proof -
  define s1 where "s1 = collect_environmental_data io current_time s"
  have due: "security_send_interval s1 \<le> current_time - security_send (timers s1)"
    using assms(2) by (simp add: s1_def collect_environmental_data_frame)
  have c1: "security_counts s1 = security_counts s"
    by (simp add: s1_def collect_environmental_data_frame)
  note away = tick_away [OF assms(1), of io current_time, folded s1_def]
  note summary = collect_security_data_summary [OF due, of io]
  have "security_counts (tick io current_time s) = \<lparr>motion = 0, smoke = 0, sound = 0\<rparr>"
    by (simp add: away(3) summary(1))
  moreover have "security_send (timers (tick io current_time s)) = current_time"
    by (simp add: away(4) summary(2))
  moreover have "\<exists>stamp. Strftime stamp \<in> set (added s (tick io current_time s))"
    using collect_security_data_stamp [OF due, of io] away(5) by blast
  moreover have "attempts (added s (tick io current_time s)) = attempts (added s s1) @
            [(''motion-feed'', PyInt (motion (fold count_detections
                (security_samples (added s (tick io current_time s))) (security_counts s)))),
             (''smoke-feed'', PyInt (smoke (fold count_detections
                (security_samples (added s (tick io current_time s))) (security_counts s)))),
             (''sound-feed'', PyInt (sound (fold count_detections
                (security_samples (added s (tick io current_time s))) (security_counts s))))]"
    by (simp add: away(2) away(1) summary(3) [of "[]"] summary_metrics c1)
  ultimately show ?thesis by blast
qed

lemma tick_check:
  assumes "system_mode s \<noteq> ''Home''"
    and "security_check_interval s \<le> current_time - security_check (timers s)"
  shows "length (security_samples (added s (tick io current_time s))) = 1"
    and "security_check (timers (tick io current_time s)) = current_time"
proof -
  define s1 where "s1 = collect_environmental_data io current_time s"
  have due: "security_check_interval s1 \<le> current_time - security_check (timers s1)"
    using assms(2) by (simp add: s1_def collect_environmental_data_frame)
  note away = tick_away [OF assms(1), of io current_time, folded s1_def]
  show "length (security_samples (added s (tick io current_time s))) = 1"
    using due by (simp add: away(1) collect_security_data_samples)
  show "security_check (timers (tick io current_time s)) = current_time"
    using due by (simp add: away(4) collect_security_data_samples)
qed

lemma tick_env:
  "environmental_samples (added s (tick io current_time s)) =
     (if env_interval s \<le> current_time - env_check (timers s)
      then [get_environmental_data io (trace s)] else [])"
  "env_check (timers (tick io current_time s)) =
     (if env_interval s \<le> current_time - env_check (timers s)
      then current_time else env_check (timers s))"
  "file1 (tick io current_time s) =
     file1 s @ environmental_samples (added s (tick io current_time s))"
  "file2 (tick io current_time s) =
     file2 s @ filter any_detected (security_samples (added s (tick io current_time s)))"
  "trace (tick io current_time s) = trace s @ added s (tick io current_time s)"
proof -
  define s1 where "s1 = collect_environmental_data io current_time s"
  define s2 where "s2 = (if system_mode s \<noteq> ''Home''
                         then collect_security_data io current_time s1 else s1)"
  note parts = tick_parts [OF s1_def s2_def]
  have a2: "environmental_samples (added s1 s2) = []"
    by (simp add: s2_def collect_security_data_samples added_self)
  have a1: "security_samples (added s s1) = []"
    by (simp add: s1_def collect_environmental_data_samples)
  have e2: "env_check (timers s2) = env_check (timers s1)"
    by (simp add: s2_def collect_security_data_frame)
  have f2: "file2 s2 = file2 s1 @ filter any_detected (security_samples (added s1 s2))"
    by (simp add: s2_def collect_security_data_samples added_self)
  have f1: "file2 s1 = file2 s"
    by (simp add: s1_def collect_environmental_data_frame)
  have env: "environmental_samples (added s (tick io current_time s)) =
      environmental_samples (added s s1)"
    by (simp add: added_trace [OF parts(1)] environmental_samples_append a2)
  have sec: "security_samples (added s (tick io current_time s)) =
      security_samples (added s1 s2)"
    by (simp add: added_trace [OF parts(1)] security_samples_append a1)
  show "environmental_samples (added s (tick io current_time s)) =
     (if env_interval s \<le> current_time - env_check (timers s)
      then [get_environmental_data io (trace s)] else [])"
    unfolding env s1_def by (rule collect_environmental_data_samples)
  show "env_check (timers (tick io current_time s)) =
     (if env_interval s \<le> current_time - env_check (timers s)
      then current_time else env_check (timers s))"
    unfolding parts(5) e2 unfolding s1_def by (rule collect_environmental_data_samples)
  show "file1 (tick io current_time s) =
     file1 s @ environmental_samples (added s (tick io current_time s))"
    unfolding env parts(2) unfolding s1_def by (rule collect_environmental_data_samples)
  show "file2 (tick io current_time s) =
     file2 s @ filter any_detected (security_samples (added s (tick io current_time s)))"
    unfolding sec parts(3) f2 f1 ..
  show "trace (tick io current_time s) = trace s @ added s (tick io current_time s)"
    using parts(1) by (simp add: added_def)
qed

section \<open>Runs\<close>

lemma run_take_Suc:
  "i < length ins \<Longrightarrow>
   run io (take (Suc i) ins) s = step io (ins ! i) (run io (take i ins) s)"
  by (simp add: run_def take_Suc_conv_app_nth)

lemma forward_to_device_samples:
  "environmental_samples (forward_to_device items feed_name payload) = []"
  "security_samples (forward_to_device items feed_name payload) = []"
  by (induction items feed_name payload rule: forward_to_device.induct) simp_all

lemma logs_followI:
  "trace s' = trace s @ evs \<Longrightarrow>
   file1 s' = file1 s @ environmental_samples evs \<Longrightarrow>
   file2 s' = file2 s @ filter any_detected (security_samples evs) \<Longrightarrow>
   logs_follow s s'"
  by (simp add: logs_follow_def added_def)

lemma logs_follow_refl: "logs_follow s s"
  by (simp add: logs_follow_def added_def)

lemma logs_follow_trans:
  assumes "logs_follow s s'" and "logs_follow s' s''"
  shows "logs_follow s s''"
proof (rule logs_followI)
  show "trace s'' = trace s @ (added s s' @ added s' s'')"
    using assms by (simp add: logs_follow_def)
  show "file1 s'' = file1 s @ environmental_samples (added s s' @ added s' s'')"
    using assms by (simp add: logs_follow_def environmental_samples_append)
  show "file2 s'' = file2 s @ filter any_detected (security_samples (added s s' @ added s' s''))"
    using assms by (simp add: logs_follow_def security_samples_append)
qed

lemma logs_follow_tick: "logs_follow s (tick io current_time s)"
  unfolding logs_follow_def
  using tick_env(3,4,5) [where s = s and io = io and current_time = current_time] by simp

lemma logs_follow_handle: "logs_follow s (handle_incoming_mqtt_command io feed_name payload s)"
  by (rule logs_followI [where evs = "added s (handle_incoming_mqtt_command io feed_name payload s)"])
     (simp_all add: handle_incoming_mqtt_command_def set_system_mode_def emit_def Let_def
       added_def forward_to_device_samples)

lemma logs_follow_deliver: "logs_follow s (deliver io a s)"
  by (cases a) (simp_all add: logs_follow_handle, simp add: logs_follow_def added_def)

lemma logs_follow_arrivals: "logs_follow s (arrivals io as s)"
proof (induction as arbitrary: s)
  case Nil
  show ?case by (simp add: arrivals_def logs_follow_refl)
next
  case (Cons a as)
  have "arrivals io (a # as) s = arrivals io as (deliver io a s)"
    by (simp add: arrivals_def)
  with logs_follow_trans [OF logs_follow_deliver Cons.IH] show ?case by simp
qed

lemma logs_follow_environmental:
  "logs_follow s (collect_environmental_data io current_time s)"
  unfolding logs_follow_def
  using collect_environmental_data_trace [where s = s and io = io and current_time = current_time]
    collect_environmental_data_samples(2,3) [where s = s and io = io and current_time = current_time]
    collect_environmental_data_frame(11) [where s = s and io = io and current_time = current_time]
  by simp

lemma logs_follow_check_part: "logs_follow s (security_check_part io current_time s)"
  by (simp add: security_check_part_def security_check_step_eq logs_follow_def added_def)

lemma logs_follow_send_part: "logs_follow s (security_send_part io current_time s)"
  by (simp add: security_send_part_def security_send_step_eq logs_follow_def added_def
      environmental_samples_append security_samples_append)

lemma logs_follow_flush: "logs_follow s (flush_and_sleep current_time s)"
  by (simp add: flush_and_sleep_def emit_def Let_def logs_follow_def added_def)

lemma logs_follow_interleaved:
  "logs_follow s (interleaved_tick io current_time a b c d s)"
proof -
  define s1 where "s1 = arrivals io a (collect_environmental_data io current_time s)"
  define s2 where "s2 = arrivals io b s1"
  define s3 where "s3 = (if system_mode s1 \<noteq> ''Home''
                         then security_check_part io current_time s2 else s2)"
  define s4 where "s4 = arrivals io c s3"
  define s5 where "s5 = (if system_mode s1 \<noteq> ''Home''
                         then security_send_part io current_time s4 else s4)"
  define s6 where "s6 = arrivals io d s5"
  have pass: "interleaved_tick io current_time a b c d s = flush_and_sleep current_time s6"
    by (simp add: interleaved_tick_def Let_def s1_def s2_def s3_def s4_def s5_def s6_def)
  have "logs_follow s s1"
    unfolding s1_def by (rule logs_follow_trans [OF logs_follow_environmental logs_follow_arrivals])
  moreover have "logs_follow s1 s2"
    unfolding s2_def by (rule logs_follow_arrivals)
  moreover have "logs_follow s2 s3"
    unfolding s3_def by (simp add: logs_follow_check_part logs_follow_refl)
  moreover have "logs_follow s3 s4"
    unfolding s4_def by (rule logs_follow_arrivals)
  moreover have "logs_follow s4 s5"
    unfolding s5_def by (simp add: logs_follow_send_part logs_follow_refl)
  moreover have "logs_follow s5 s6"
    unfolding s6_def by (rule logs_follow_arrivals)
  moreover have "logs_follow s6 (flush_and_sleep current_time s6)"
    by (rule logs_follow_flush)
  ultimately show ?thesis
    unfolding pass by (blast intro: logs_follow_trans)
qed

lemma logs_follow_step: "logs_follow s (step io inp s)"
proof (cases inp)
  case (Tick current_time)
  then show ?thesis by (simp add: logs_follow_tick logs_follow_refl)
next
  case (Message feed_name payload)
  then show ?thesis by (simp add: logs_follow_handle)
next
  case Shutdown
  then show ?thesis by (simp add: logs_follow_def added_def)
next
  case (Interleaved_tick current_time a b c d)
  then show ?thesis by (simp add: logs_follow_interleaved logs_follow_arrivals)
qed

lemma logs_follow_run: "logs_follow s (run io ins s)"
proof (induction ins arbitrary: s)
  case Nil
  show ?case by (simp add: run_def logs_follow_refl)
next
  case (Cons inp ins)
  have "run io (inp # ins) s = run io ins (step io inp s)"
    by (simp add: run_def)
  with logs_follow_trans [OF logs_follow_step Cons.IH] show ?case by simp
qed

text \<open>
  Claim C1, amended. Over every run, whatever the transport answers: the lines appended to
  the environmental log file are exactly the environmental readings sampled, in order, so
  every sampled environmental reading is in its file; the lines appended to the security
  log file are exactly those sampled security readings on which at least one of the
  motion, smoke and sound flags fired.
\<close>
theorem readings_logged:
  "file1 (run io ins s) = file1 s @ environmental_samples (added s (run io ins s)) \<and>
   file2 (run io ins s) =
     file2 s @ filter any_detected (security_samples (added s (run io ins s)))"
  using logs_follow_run [of s io ins] by (simp add: logs_follow_def)

lemma collect_security_data_parts:
  "collect_security_data io current_time s =
     security_send_part io current_time (security_check_part io current_time s)"
  by (simp add: collect_security_data_def security_send_part_def security_check_part_def Let_def)

lemma interleaved_tick_plain: "interleaved_tick io current_time [] [] [] [] s = tick io current_time s"
  by (simp add: interleaved_tick_def tick_def flush_and_sleep_def arrivals_def Let_def
      collect_security_data_parts)

lemma security_idleI:
  "trace s' = trace s @ evs \<Longrightarrow> security_samples evs = [] \<Longrightarrow>
   security_counts s' = security_counts s \<Longrightarrow> security_idle s s'"
  by (simp add: security_idle_def added_def)

lemma security_idle_refl: "security_idle s s"
  by (simp add: security_idle_def added_def)

lemma security_idle_trans:
  assumes "security_idle s s'" and "security_idle s' s''"
  shows "security_idle s s''"
proof (rule security_idleI)
  show "trace s'' = trace s @ (added s s' @ added s' s'')"
    using assms by (simp add: security_idle_def)
  show "security_samples (added s s' @ added s' s'') = []"
    using assms by (simp add: security_idle_def security_samples_append)
  show "security_counts s'' = security_counts s"
    using assms by (simp add: security_idle_def)
qed

lemma security_idle_handle:
  "security_idle s (handle_incoming_mqtt_command io feed_name payload s)"
  by (rule security_idleI [where evs = "added s (handle_incoming_mqtt_command io feed_name payload s)"])
     (simp_all add: handle_incoming_mqtt_command_def set_system_mode_def emit_def Let_def
       added_def forward_to_device_samples)

lemma security_idle_deliver: "security_idle s (deliver io a s)"
  by (cases a) (simp_all add: security_idle_handle, simp add: security_idle_def added_def)

lemma security_idle_arrivals: "security_idle s (arrivals io as s)"
proof (induction as arbitrary: s)
  case Nil
  show ?case by (simp add: arrivals_def security_idle_refl)
next
  case (Cons a as)
  have "arrivals io (a # as) s = arrivals io as (deliver io a s)"
    by (simp add: arrivals_def)
  with security_idle_trans [OF security_idle_deliver Cons.IH] show ?case by simp
qed

lemma security_idle_environmental:
  "security_idle s (collect_environmental_data io current_time s)"
  unfolding security_idle_def
  using collect_environmental_data_trace [where s = s and io = io and current_time = current_time]
    collect_environmental_data_samples(2) [where s = s and io = io and current_time = current_time]
    collect_environmental_data_frame(3) [where s = s and io = io and current_time = current_time]
  by simp

lemma security_idle_flush: "security_idle s (flush_and_sleep current_time s)"
  by (simp add: flush_and_sleep_def emit_def Let_def security_idle_def added_def)

lemma security_idle_tick:
  assumes "system_mode s = ''Home''"
  shows "security_idle s (tick io current_time s)"
  unfolding security_idle_def
  using tick_home(1,2) [OF assms, of io current_time]
    tick_env(5) [where s = s and io = io and current_time = current_time]
  by simp

lemma security_idle_interleaved:
  assumes "system_mode (arrivals io a (collect_environmental_data io current_time s)) = ''Home''"
  shows "security_idle s (interleaved_tick io current_time a b c d s)"
proof -
  define s1 where "s1 = arrivals io a (collect_environmental_data io current_time s)"
  define s2 where "s2 = arrivals io b s1"
  define s4 where "s4 = arrivals io c s2"
  define s6 where "s6 = arrivals io d s4"
  have pass: "interleaved_tick io current_time a b c d s = flush_and_sleep current_time s6"
    using assms by (simp add: interleaved_tick_def Let_def s1_def s2_def s4_def s6_def)
  have "security_idle s s1"
    unfolding s1_def
    by (rule security_idle_trans [OF security_idle_environmental security_idle_arrivals])
  moreover have "security_idle s1 s2"
    unfolding s2_def by (rule security_idle_arrivals)
  moreover have "security_idle s2 s4"
    unfolding s4_def by (rule security_idle_arrivals)
  moreover have "security_idle s4 s6"
    unfolding s6_def by (rule security_idle_arrivals)
  moreover have "security_idle s6 (flush_and_sleep current_time s6)"
    by (rule security_idle_flush)
  ultimately show ?thesis
    unfolding pass by (blast intro: security_idle_trans)
qed

lemma security_idle_step:
  assumes "mode_at_gate io inp s = None \<or> mode_at_gate io inp s = Some ''Home''"
  shows "security_idle s (step io inp s)"
proof (cases inp)
  case (Tick current_time)
  show ?thesis
  proof (cases "running s")
    case True
    with assms Tick have "system_mode s = ''Home''"
      by (simp add: collect_environmental_data_frame)
    with True Tick show ?thesis by (simp add: security_idle_tick)
  next
    case False
    with Tick show ?thesis by (simp add: security_idle_refl)
  qed
next
  case (Message feed_name payload)
  then show ?thesis by (simp add: security_idle_handle)
next
  case Shutdown
  then show ?thesis by (simp add: security_idle_def added_def)
next
  case (Interleaved_tick current_time a b c d)
  show ?thesis
  proof (cases "running s")
    case True
    with assms Interleaved_tick
    have "system_mode (arrivals io a (collect_environmental_data io current_time s)) = ''Home''"
      by simp
    with True Interleaved_tick show ?thesis by (simp add: security_idle_interleaved)
  next
    case False
    with Interleaved_tick show ?thesis by (simp add: security_idle_arrivals)
  qed
qed

text \<open>
  Claim C2, amended to the mode that the pass tests. In every run, with messages and the
  shutdown arriving between the passes or in the middle of one: a pass in which the test
  in front of \<^verbatim>\<open>collect_security_data\<close> reads the mode Home takes no security sample and
  leaves the detection counters as they were, and so does every step of the run that is
  not a pass of the scheduler thread. A security sample is therefore taken only in a pass
  whose test read a mode other than Home.
\<close>
theorem security_sampling_gated:
  assumes "i < length ins"
    and "mode_at_gate io (ins ! i) (run io (take i ins) s) = None \<or>
         mode_at_gate io (ins ! i) (run io (take i ins) s) = Some ''Home''"
  shows "security_samples (added (run io (take i ins) s) (run io (take (Suc i) ins) s)) = [] \<and>
         security_counts (run io (take (Suc i) ins) s) = security_counts (run io (take i ins) s)"
  using security_idle_step [OF assms(2)] assms(1)
  by (simp add: run_take_Suc security_idle_def)

text \<open>
  Claim C3, amended by the mode gate. Take a pass on which at least
  \<open>security_send_interval\<close> has elapsed since the last summary. In a mode other than Home the
  summary step runs: the time stamp is read, a send is attempted for the three counters
  (as they stand after the sample of this pass, if one was taken) on the three security
  feeds, the counters are reset to zero and the \<open>security_send\<close> timer is set to the current
  time. In mode Home the step does not run: the counters and the timer are left as they
  were and the only sends of the pass are those of the environmental task.
\<close>
theorem summary_runs_when_due_and_not_home:
  assumes "security_send_interval s \<le> current_time - security_send (timers s)"
  shows "if system_mode s \<noteq> ''Home''
         then security_counts (tick io current_time s) = \<lparr>motion = 0, smoke = 0, sound = 0\<rparr> \<and>
           security_send (timers (tick io current_time s)) = current_time \<and>
           (\<exists>stamp. Strftime stamp \<in> set (added s (tick io current_time s))) \<and>
           (\<exists>earlier. attempts (added s (tick io current_time s)) = earlier @
              [(''motion-feed'', PyInt (motion (fold count_detections
                  (security_samples (added s (tick io current_time s))) (security_counts s)))),
               (''smoke-feed'', PyInt (smoke (fold count_detections
                  (security_samples (added s (tick io current_time s))) (security_counts s)))),
               (''sound-feed'', PyInt (sound (fold count_detections
                  (security_samples (added s (tick io current_time s))) (security_counts s))))])
         else security_counts (tick io current_time s) = security_counts s \<and>
           security_send (timers (tick io current_time s)) = security_send (timers s) \<and>
           attempts (added s (tick io current_time s)) =
             (if env_interval s \<le> current_time - env_check (timers s)
              then common_metrics (get_environmental_data io (trace s)) ENV_FEEDS else [])"
proof (cases "system_mode s = ''Home''")
  case True
  with tick_home(2,4) [OF True, of io current_time] tick_home_attempts [OF True, of io current_time]
  show ?thesis by simp
next
  case False
  with tick_summary [OF False assms, of io] show ?thesis by simp
qed

text \<open>
  Claim C10. \<open>loop_start\<close> sets the three timers to 0. On the first pass after it, when the
  current time is at least each configured interval, the environmental task samples at
  once and sets its timer; and when the mode is not Home the security check samples at
  once and the summary is sent at once on the three security feeds, both timers being set
  to the current time.
\<close>
theorem first_tick_fires:
  assumes "env_interval s \<le> current_time"
    and "security_check_interval s \<le> current_time"
    and "security_send_interval s \<le> current_time"
  shows "timers (loop_start t0 s) = \<lparr>env_check = 0, security_check = 0, security_send = 0\<rparr> \<and>
         environmental_samples (added (loop_start t0 s) (tick io current_time (loop_start t0 s))) =
           [get_environmental_data io (trace (loop_start t0 s))] \<and>
         env_check (timers (tick io current_time (loop_start t0 s))) = current_time \<and>
         (system_mode s \<noteq> ''Home'' \<longrightarrow>
            length (security_samples
              (added (loop_start t0 s) (tick io current_time (loop_start t0 s)))) = 1 \<and>
            security_check (timers (tick io current_time (loop_start t0 s))) = current_time \<and>
            security_send (timers (tick io current_time (loop_start t0 s))) = current_time \<and>
            (\<exists>earlier. map fst (attempts
               (added (loop_start t0 s) (tick io current_time (loop_start t0 s)))) =
                 earlier @ [''motion-feed'', ''smoke-feed'', ''sound-feed'']))"
proof -
  define s0 where "s0 = loop_start t0 s"
  have start: "timers s0 = \<lparr>env_check = 0, security_check = 0, security_send = 0\<rparr>"
    "env_interval s0 = env_interval s" "security_check_interval s0 = security_check_interval s"
    "security_send_interval s0 = security_send_interval s" "system_mode s0 = system_mode s"
    by (simp_all add: s0_def loop_start_def emit_def)
  have env: "env_interval s0 \<le> current_time - env_check (timers s0)"
    and check: "security_check_interval s0 \<le> current_time - security_check (timers s0)"
    and send: "security_send_interval s0 \<le> current_time - security_send (timers s0)"
    using assms by (simp_all add: start)
  have "environmental_samples (added s0 (tick io current_time s0)) =
      [get_environmental_data io (trace s0)]"
    using env by (simp add: tick_env(1))
  moreover have "env_check (timers (tick io current_time s0)) = current_time"
    using env by (simp add: tick_env(2))
  moreover have "system_mode s \<noteq> ''Home'' \<longrightarrow>
      length (security_samples (added s0 (tick io current_time s0))) = 1 \<and>
      security_check (timers (tick io current_time s0)) = current_time \<and>
      security_send (timers (tick io current_time s0)) = current_time \<and>
      (\<exists>earlier. map fst (attempts (added s0 (tick io current_time s0))) =
         earlier @ [''motion-feed'', ''smoke-feed'', ''sound-feed''])"
  proof
    assume "system_mode s \<noteq> ''Home''"
    then have mode: "system_mode s0 \<noteq> ''Home''" by (simp add: start)
    from tick_summary [OF mode send, of io] obtain earlier where
      "security_send (timers (tick io current_time s0)) = current_time"
      "attempts (added s0 (tick io current_time s0)) = earlier @
            [(''motion-feed'', PyInt (motion (fold count_detections
                (security_samples (added s0 (tick io current_time s0))) (security_counts s0)))),
             (''smoke-feed'', PyInt (smoke (fold count_detections
                (security_samples (added s0 (tick io current_time s0))) (security_counts s0)))),
             (''sound-feed'', PyInt (sound (fold count_detections
                (security_samples (added s0 (tick io current_time s0))) (security_counts s0))))]"
      by blast
    then have "security_send (timers (tick io current_time s0)) = current_time"
      "map fst (attempts (added s0 (tick io current_time s0))) =
         map fst earlier @ [''motion-feed'', ''smoke-feed'', ''sound-feed'']"
      by simp_all
    with tick_check [OF mode check, of io]
    show "length (security_samples (added s0 (tick io current_time s0))) = 1 \<and>
      security_check (timers (tick io current_time s0)) = current_time \<and>
      security_send (timers (tick io current_time s0)) = current_time \<and>
      (\<exists>earlier. map fst (attempts (added s0 (tick io current_time s0))) =
         earlier @ [''motion-feed'', ''smoke-feed'', ''sound-feed''])"
      by blast
  qed
  ultimately show ?thesis using start(1) unfolding s0_def by blast
qed

section \<open>Runs of the model\<close>

text \<open>
  Claim C1 as stated fails for a security reading on which no detector fired. In the run
  \<open>quiet_away\<close> the pass at time 400 samples \<open>quiet_reading\<close>, and the security log file
  does not hold it.
\<close>

theorem quiet_reading_not_logged:
  "security_samples (trace (run offline quiet_away (loop_start 0 initial_state))) = [quiet_reading] \<and>
   quiet_reading \<notin> set (file2 (run offline quiet_away (loop_start 0 initial_state)))"
  by code_simp

theorem security_sampling_gated_witness:
  "2 < length home_before_gate \<and>
   system_mode (run online (take 2 home_before_gate) (loop_start 0 initial_state)) = ''Away'' \<and>
   mode_at_gate online (home_before_gate ! 2)
     (run online (take 2 home_before_gate) (loop_start 0 initial_state)) = Some ''Home'' \<and>
   security_samples (added (run online (take 2 home_before_gate) (loop_start 0 initial_state))
     (run online (take (Suc 2) home_before_gate) (loop_start 0 initial_state))) = [] \<and>
   security_counts (run online (take (Suc 2) home_before_gate) (loop_start 0 initial_state)) =
     \<lparr>motion = 0, smoke = 0, sound = 0\<rparr>"
proof -
  have a: "2 < length home_before_gate"
    by (simp add: home_before_gate_def)
  have b: "mode_at_gate online (home_before_gate ! 2)
      (run online (take 2 home_before_gate) (loop_start 0 initial_state)) = Some ''Home''"
    by code_simp
  have c: "system_mode (run online (take 2 home_before_gate) (loop_start 0 initial_state)) = ''Away''"
    "security_counts (run online (take 2 home_before_gate) (loop_start 0 initial_state)) =
       \<lparr>motion = 0, smoke = 0, sound = 0\<rparr>"
    by code_simp+
  from security_sampling_gated [OF a disjI2 [OF b]] a b c show ?thesis
    by simp
qed

text \<open>
  Claim C2 as stated fails when the mode changes during a pass. In the run
  \<open>home_after_gate\<close> the pass at time 405 starts in mode Away and tests the mode; then the
  message arrives that sets the mode to Home; then the security check, which is due,
  reads the security module and counts the motion. The sample is taken and counted while
  the mode is Home.
\<close>

theorem sample_counted_in_home_mode:
  "system_mode (run online (butlast home_after_gate) (loop_start 0 initial_state)) = ''Away'' \<and>
   security_counts (run online (butlast home_after_gate) (loop_start 0 initial_state)) =
     \<lparr>motion = 0, smoke = 0, sound = 0\<rparr> \<and>
   added (run online (butlast home_after_gate) (loop_start 0 initial_state))
         (run online home_after_gate (loop_start 0 initial_state)) =
     [Log Critical (Mode_updated ''Home''), Get_security_data motion_reading, Sleep 5] \<and>
   system_mode (run online home_after_gate (loop_start 0 initial_state)) = ''Home'' \<and>
   security_counts (run online home_after_gate (loop_start 0 initial_state)) =
     \<lparr>motion = 1, smoke = 0, sound = 0\<rparr>"
  by code_simp

theorem summary_runs_when_due_and_not_home_witness:
  "security_send_interval busy_state \<le> 400 - security_send (timers busy_state) \<and>
   system_mode busy_state \<noteq> ''Home'' \<and>
   security_counts (tick offline 400 busy_state) = \<lparr>motion = 0, smoke = 0, sound = 0\<rparr> \<and>
   security_send (timers (tick offline 400 busy_state)) = 400 \<and>
   security_samples (added busy_state (tick offline 400 busy_state)) = [quiet_reading] \<and>
   attempts (added busy_state (tick offline 400 busy_state)) =
     [(''temperature-feed'', PyInt 21), (''humidity-feed'', PyInt 40),
      (''pressure-feed'', PyInt 1013),
      (''motion-feed'', PyInt 2), (''smoke-feed'', PyInt 0), (''sound-feed'', PyInt 1)]"
proof -
  have a: "system_mode busy_state \<noteq> ''Home''"
    and b: "security_send_interval busy_state \<le> 400 - security_send (timers busy_state)"
    by (simp_all add: busy_state_def initial_state_def)
  have c: "security_samples (added busy_state (tick offline 400 busy_state)) = [quiet_reading]"
    "attempts (added busy_state (tick offline 400 busy_state)) =
     [(''temperature-feed'', PyInt 21), (''humidity-feed'', PyInt 40),
      (''pressure-feed'', PyInt 1013),
      (''motion-feed'', PyInt 2), (''smoke-feed'', PyInt 0), (''sound-feed'', PyInt 1)]"
    by code_simp+
  from summary_runs_when_due_and_not_home [OF b, of offline] a b c show ?thesis
    by simp
qed

text \<open>
  Claim C3 as stated fails in mode Home. In the run \<open>away_then_home\<close> the last pass, at time
  800, starts in mode Home with the summary timer at 400, so the summary is due by its own
  timer (the interval is 360). The pass sends no summary: the motion counter keeps the
  detection counted at time 405 and the timer stays at 400.
\<close>

theorem summary_skipped_in_home_mode:
  "system_mode (run online (butlast away_then_home) (loop_start 0 initial_state)) = ''Home'' \<and>
   security_send_interval (run online (butlast away_then_home) (loop_start 0 initial_state))
     \<le> 800 - security_send (timers (run online (butlast away_then_home) (loop_start 0 initial_state))) \<and>
   last away_then_home = Tick 800 \<and>
   security_counts (run online away_then_home (loop_start 0 initial_state)) =
     \<lparr>motion = 1, smoke = 0, sound = 0\<rparr> \<and>
   security_send (timers (run online away_then_home (loop_start 0 initial_state))) = 400"
  by code_simp

theorem counters_zero_after_summary_witness:
  "security_send_interval busy_state \<le> 400 - security_send (timers busy_state) \<and>
   security_counts (collect_security_data offline 400 busy_state) =
     \<lparr>motion = 0, smoke = 0, sound = 0\<rparr> \<and>
   outcomes (added busy_state (collect_security_data offline 400 busy_state)) =
     [False, False, False] \<and>
   security_counts (collect_security_data online 400 busy_state) =
     \<lparr>motion = 0, smoke = 0, sound = 0\<rparr> \<and>
   outcomes (added busy_state (collect_security_data online 400 busy_state)) =
     [True, True, True]"
proof -
  have a: "security_send_interval busy_state \<le> 400 - security_send (timers busy_state)"
    by (simp add: busy_state_def initial_state_def)
  have b: "outcomes (added busy_state (collect_security_data offline 400 busy_state)) =
     [False, False, False]"
    "outcomes (added busy_state (collect_security_data online 400 busy_state)) =
     [True, True, True]"
    by code_simp+
  from counters_zero_after_summary [OF a, of offline]
    counters_zero_after_summary [OF a, of online] a b
  show ?thesis by simp
qed

theorem first_tick_fires_witness:
  "env_interval busy_state \<le> 400 \<and> security_check_interval busy_state \<le> 400 \<and>
   security_send_interval busy_state \<le> 400 \<and> system_mode busy_state \<noteq> ''Home'' \<and>
   environmental_samples (added (loop_start 0 busy_state) (tick online 400 (loop_start 0 busy_state)))
     = [sample_env] \<and>
   length (security_samples
     (added (loop_start 0 busy_state) (tick online 400 (loop_start 0 busy_state)))) = 1 \<and>
   timers (tick online 400 (loop_start 0 busy_state)) =
     \<lparr>env_check = 400, security_check = 400, security_send = 400\<rparr>"
proof -
  have a: "env_interval busy_state \<le> 400" and b: "security_check_interval busy_state \<le> 400"
    and c: "security_send_interval busy_state \<le> 400" and d: "system_mode busy_state \<noteq> ''Home''"
    by (simp_all add: busy_state_def initial_state_def)
  have e: "get_environmental_data online (trace (loop_start 0 busy_state)) = sample_env"
    by (simp add: online_def)
  from first_tick_fires [OF a b c, of 0 online] a b c d e show ?thesis
    by (cases "timers (tick online 400 (loop_start 0 busy_state))") simp
qed

end
